theory Spec2Isabelle
  imports Complex_Main "HOL-Library.AList" "HOL-Library.Word"
begin

section \<open>JavaScript values and strings\<close>

text \<open>
  The handlers of the chat gateway read JSON they do not control (the payload of the
  client, the answer of an HTTP call), so such data is modelled as a JavaScript value. An
  object is an association list read with \<open>map_of\<close>; a property that is not there reads as
  \<open>undefined\<close>. Strings are lists of 8-bit characters (the code units below 256).
\<close>

datatype jsval =
    JUndefined
  | JNull
  | JBool bool
  | JNum real
  | JStr string
  | JArr "jsval list"
  | JObj "(string \<times> jsval) list"

definition obj_get :: "(string \<times> jsval) list \<Rightarrow> string \<Rightarrow> jsval" where
  "obj_get kvs k = (case map_of kvs k of Some v \<Rightarrow> v | None \<Rightarrow> JUndefined)"

text \<open>
  \<open>v.k\<close> on a value that is neither \<open>undefined\<close> nor \<open>null\<close>, and \<open>v?.k\<close> on any value, for
  the properties the handlers read (\<open>messages\<close>, \<open>role\<close>, \<open>content\<close>, \<open>choices\<close>,
  \<open>message\<close>): only an object can have them.
\<close>

definition get_prop :: "jsval \<Rightarrow> string \<Rightarrow> jsval" where
  "get_prop v k = (case v of JObj kvs \<Rightarrow> obj_get kvs k | _ \<Rightarrow> JUndefined)"

text \<open>
  \<open>v?.[0]\<close>: the first element of an array, the first character of a string, the
  property \<open>0\<close> of an object; \<open>undefined\<close> where there is none.
\<close>

definition optional_first :: "jsval \<Rightarrow> jsval" where
  "optional_first v =
     (case v of
        JArr xs \<Rightarrow> (case xs of [] \<Rightarrow> JUndefined | x # rest \<Rightarrow> x)
      | JStr s \<Rightarrow> (case s of [] \<Rightarrow> JUndefined | c # rest \<Rightarrow> JStr [c])
      | JObj kvs \<Rightarrow> obj_get kvs ''0''
      | _ \<Rightarrow> JUndefined)"

text \<open>What \<open>||\<close> and \<open>if\<close> take for true.\<close>

definition truthy :: "jsval \<Rightarrow> bool" where
  "truthy v =
     (case v of
        JUndefined \<Rightarrow> False
      | JNull \<Rightarrow> False
      | JBool b \<Rightarrow> b
      | JNum x \<Rightarrow> x \<noteq> 0
      | JStr s \<Rightarrow> s \<noteq> []
      | JArr xs \<Rightarrow> True
      | JObj kvs \<Rightarrow> True)"

text \<open>\<open>s.includes(sub)\<close>: \<open>sub\<close> occurs in \<open>s\<close> as a contiguous run.\<close>

fun startsWith :: "string \<Rightarrow> string \<Rightarrow> bool" where
  "startsWith s [] = True"
| "startsWith [] (c # sub) = False"
| "startsWith (d # s) (c # sub) = (d = c \<and> startsWith s sub)"

fun str_includes :: "string \<Rightarrow> string \<Rightarrow> bool" where
  "str_includes [] sub = (sub = [])"
| "str_includes (d # s) sub = (startsWith (d # s) sub \<or> str_includes s sub)"

text \<open>
  \<open>s.trim()\<close> removes white space and line terminators from both ends. Of the characters
  ECMAScript lists, those below 256 are tab, line feed, vertical tab, form feed, carriage
  return, space and the no-break space.
\<close>

definition isWhiteSpace :: "char \<Rightarrow> bool" where
  "isWhiteSpace c = (c \<in> {CHR 0x09, CHR 0x0A, CHR 0x0B, CHR 0x0C, CHR 0x0D, CHR 0x20, CHR 0xA0})"

definition trim :: "string \<Rightarrow> string" where
  "trim s = rev (dropWhile isWhiteSpace (rev (dropWhile isWhiteSpace s)))"

text \<open>The decimal digits of a natural number.\<close>

definition digit_char :: "nat \<Rightarrow> char" where
  "digit_char d = char_of (48 + d)"

fun string_of_nat :: "nat \<Rightarrow> string" where
  "string_of_nat n =
     (if n < 10 then [digit_char n] else string_of_nat (n div 10) @ [digit_char (n mod 10)])"

declare string_of_nat.simps [simp del]

text \<open>
  The status of an HTTP response is an unsigned 16-bit number: the HTTP parser reads it
  as such from the status line, and \<open>Response.status\<close> is an \<open>unsigned short\<close>.
  \<open>status.toString()\<close> of such a number is its decimal digits.
\<close>

definition toString :: "16 word \<Rightarrow> string" where
  "toString status = string_of_nat (unat status)"


section \<open>The error model (types.ts)\<close>

datatype ErrorType =
    API_ERROR
  | VALIDATION_ERROR
  | CONFIGURATION_ERROR
  | UNSUPPORTED_MODEL
  | RATE_LIMIT_ERROR
  | AUTHENTICATION_ERROR
  | NETWORK_ERROR
  | UNKNOWN_ERROR

text \<open>
  What the HTTP client attaches to the error of a failed call: \<open>error.response\<close> with the
  upstream \<open>status\<close> and the decoded body \<open>data\<close>. The body is kept at the shape the
  providers document, \<open>{error: {message: string}}\<close>, each level optional, which is what
  \<open>data?.error?.message\<close> reads.
\<close>

datatype upstream_error = UpstreamError (upstream_message: "string option")

datatype upstream_data = UpstreamData (upstream_error: "upstream_error option")

datatype api_response = ApiResponse (resp_status: "16 word") (resp_data: "upstream_data option")

text \<open>
  The \<open>message\<close> of an \<open>Error\<close>. The errors of the engine and of the clients have a text;
  nothing keeps a thrown \<open>Error\<close> from having \<open>undefined\<close>, \<open>null\<close> or another value
  that is no string and has no \<open>includes\<close> method (a number, a boolean, a plain object),
  which is kept as what a template literal makes of it. A message that is an array, or
  an object with an \<open>includes\<close> of its own, is not modelled.
\<close>

datatype message_t = Text string | Missing | Null | Other string

text \<open>The message as a template literal renders it.\<close>

definition message_text :: "message_t \<Rightarrow> string" where
  "message_text m =
     (case m of Text s \<Rightarrow> s | Missing \<Rightarrow> ''undefined'' | Null \<Rightarrow> ''null'' | Other t \<Rightarrow> t)"

text \<open>
  An instance of \<open>Error\<close> that is not a \<open>ChatErrorImpl\<close>: its message; \<open>error.status\<close>,
  where the clients of OpenAI and Gemini put the upstream status of a failed call; and
  \<open>error.response\<close>, where the HTTP client of the DeepSeek adapter puts it.
\<close>

datatype js_error =
  JsError (err_message: message_t) (err_status: "16 word option")
    (err_response: "api_response option")

datatype path_elem = Key string | Index nat

datatype zod_issue = ZodIssue (issue_code: string) (issue_path: "path_elem list")

datatype details_t =
    NoDetails
  | UpstreamDetails "upstream_data option"
  | ErrorDetails js_error
  | ValueDetails jsval
  | ZodDetails "zod_issue list"

text \<open>
  \<open>ChatErrorImpl\<close>: the constructor takes message, statusCode, type, details and
  suggestion, in this order.
\<close>

datatype ChatError =
  ChatErrorImpl (message: string) (statusCode: int) (type: ErrorType)
    (details: details_t) (suggestion: "string option")

text \<open>A value caught by \<open>catch (error)\<close>, by what \<open>instanceof\<close> tells about it.\<close>

datatype thrown =
    ThrownChatError ChatError
  | ThrownError js_error
  | ThrownValue jsval

text \<open>
  The errors the engine and the platform throw (\<open>TypeError\<close>, \<open>SyntaxError\<close>,
  \<open>RangeError\<close>): an \<open>Error\<close> with a text as message and no status.
\<close>

definition TypeError :: "string \<Rightarrow> thrown" where
  "TypeError m = ThrownError (JsError (Text m) None None)"

definition SyntaxError :: "string \<Rightarrow> thrown" where
  "SyntaxError m = ThrownError (JsError (Text m) None None)"

definition RangeError :: "string \<Rightarrow> thrown" where
  "RangeError m = ThrownError (JsError (Text m) None None)"

datatype error_info =
  ErrorInfo (info_message: string) (info_type: ErrorType) (info_suggestion: "string option")

definition NETWORK :: error_info where
  "NETWORK = ErrorInfo ''Unable to connect to the AI service.'' NETWORK_ERROR
     (Some ''Please check your internet connection and try again.'')"

definition API_ERROR_MESSAGES :: "(string \<times> error_info) list" where
  "API_ERROR_MESSAGES =
    [(''429'', ErrorInfo ''The selected AI model is currently at capacity.'' API_ERROR
        (Some ''Please try again later or select a different model.'')),
     (''401'', ErrorInfo ''API key is invalid or not configured.'' AUTHENTICATION_ERROR
        (Some ''Please check your API key in the settings.'')),
     (''403'', ErrorInfo ''Access to the AI model is forbidden.'' AUTHENTICATION_ERROR
        (Some ''Please verify your API key and permissions.'')),
     (''500'', ErrorInfo ''The AI service is experiencing issues.'' API_ERROR
        (Some ''Please try again later or contact support if the issue persists.'')),
     (''503'', ErrorInfo ''The AI service is temporarily unavailable.'' API_ERROR
        (Some ''Please try again in a few minutes.'')),
     (''400'', ErrorInfo ''Invalid request format.'' VALIDATION_ERROR
        (Some ''Please check your input and try again.'')),
     (''NETWORK'', NETWORK),
     (''MODEL'', ErrorInfo ''The selected model is not available.'' API_ERROR
        (Some ''Please try a different model or check the model's status.''))]"

text \<open>
  \<open>apiError.response.data?.error?.message || error.message\<close>: the upstream text when
  there is one and it is not empty, the error's own message otherwise.
\<close>

definition upstream_text :: "upstream_data option \<Rightarrow> string option" where
  "upstream_text d =
     (case d of
        None \<Rightarrow> None
      | Some (UpstreamData None) \<Rightarrow> None
      | Some (UpstreamData (Some (UpstreamError m))) \<Rightarrow> m)"

definition message_or :: "string option \<Rightarrow> string \<Rightarrow> string" where
  "message_or m fallback = (case m of Some s \<Rightarrow> (if s \<noteq> [] then s else fallback) | None \<Rightarrow> fallback)"

text \<open>
  \<open>if (apiError?.response?.status)\<close>: the response, when the error has one whose status
  is truthy, that is, a number other than 0. Nothing else of the error is read for a
  status.
\<close>

definition status_response :: "js_error \<Rightarrow> api_response option" where
  "status_response e =
     (case err_response e of
        None \<Rightarrow> None
      | Some r \<Rightarrow> if resp_status r \<noteq> 0 then Some r else None)"

definition api_error :: "js_error \<Rightarrow> api_response \<Rightarrow> ChatError" where
  "api_error e r =
     (let status = toString (resp_status r);
          errorInfo =
            (case map_of API_ERROR_MESSAGES status of
               Some i \<Rightarrow> i
             | None \<Rightarrow>
                 ErrorInfo
                   (''API Error ('' @ status @ ''): '' @
                      message_or (upstream_text (resp_data r)) (message_text (err_message e)))
                   API_ERROR (Some ''Please try again later.''))
      in ChatErrorImpl (info_message errorInfo) (uint (resp_status r)) (info_type errorInfo)
           (UpstreamDetails (resp_data r)) (info_suggestion errorInfo))"

definition default_error :: "string \<Rightarrow> details_t \<Rightarrow> ChatError" where
  "default_error defaultMessage d =
     ChatErrorImpl defaultMessage 500 UNKNOWN_ERROR d
       (Some ''Please try again later or contact support if the issue persists.'')"

text \<open>
  \<open>error.message.includes(sub)\<close>: the test on a text; a \<open>TypeError\<close> on a message that is
  no text (the messages are those of V8).
\<close>

definition message_includes :: "message_t \<Rightarrow> string \<Rightarrow> thrown + bool" where
  "message_includes m sub =
     (case m of
        Text s \<Rightarrow> Inr (str_includes s sub)
      | Missing \<Rightarrow> Inl (TypeError ''Cannot read properties of undefined (reading 'includes')'')
      | Null \<Rightarrow> Inl (TypeError ''Cannot read properties of null (reading 'includes')'')
      | Other t \<Rightarrow> Inl (TypeError ''error.message.includes is not a function''))"

text \<open>\<open>error.message.includes("network") || error.message.includes("connect")\<close>\<close>

definition network_message :: "message_t \<Rightarrow> thrown + bool" where
  "network_message m =
     (case message_includes m ''network'' of
        Inl t \<Rightarrow> Inl t
      | Inr found \<Rightarrow> if found then Inr True else message_includes m ''connect'')"

text \<open>
  \<open>createErrorResponse\<close> returns a \<open>ChatError\<close> (\<open>Inr\<close>) or throws (\<open>Inl\<close>).
\<close>

fun createErrorResponse :: "thrown \<Rightarrow> string \<Rightarrow> thrown + ChatError" where
  "createErrorResponse (ThrownChatError c) defaultMessage = Inr c"
| "createErrorResponse (ThrownError e) defaultMessage =
     (case status_response e of
        Some r \<Rightarrow> Inr (api_error e r)
      | None \<Rightarrow>
          (case network_message (err_message e) of
             Inl t \<Rightarrow> Inl t
           | Inr found \<Rightarrow>
               if found
               then Inr (ChatErrorImpl (info_message NETWORK) 503 NETWORK_ERROR (ErrorDetails e)
                           (info_suggestion NETWORK))
               else Inr (default_error defaultMessage (ErrorDetails e))))"
| "createErrorResponse (ThrownValue v) defaultMessage =
     Inr (default_error defaultMessage (ValueDetails v))"

text \<open>The default of the parameter \<open>defaultMessage\<close>.\<close>

definition unexpected :: string where
  "unexpected = ''An unexpected error occurred''"

section \<open>The request schema (types.ts)\<close>

record Message =
  role :: string
  content :: string
  name :: "string option"
  function_call :: "(string \<times> string) option"

record ChatRequest =
  model :: string
  messages :: "Message list"
  stream :: "bool option"
  parameters :: "(string \<times> jsval) list option"

text \<open>
  \<open>safeParse\<close> returns the parsed data or the issues of every field that failed, each
  with the path of the field.
\<close>

type_synonym 'a parse_result = "zod_issue list + 'a"

definition issues :: "'a parse_result \<Rightarrow> zod_issue list" where
  "issues r = (case r of Inl is \<Rightarrow> is | Inr a \<Rightarrow> [])"

definition z_enum :: "string list \<Rightarrow> path_elem list \<Rightarrow> jsval \<Rightarrow> string parse_result" where
  "z_enum vals p v =
     (case v of
        JStr s \<Rightarrow> if s \<in> set vals then Inr s else Inl [ZodIssue ''invalid_enum_value'' p]
      | _ \<Rightarrow> Inl [ZodIssue ''invalid_type'' p])"

definition z_string :: "path_elem list \<Rightarrow> jsval \<Rightarrow> string parse_result" where
  "z_string p v = (case v of JStr s \<Rightarrow> Inr s | _ \<Rightarrow> Inl [ZodIssue ''invalid_type'' p])"

definition z_string_min :: "nat \<Rightarrow> path_elem list \<Rightarrow> jsval \<Rightarrow> string parse_result" where
  "z_string_min n p v =
     (case v of
        JStr s \<Rightarrow> if n \<le> length s then Inr s else Inl [ZodIssue ''too_small'' p]
      | _ \<Rightarrow> Inl [ZodIssue ''invalid_type'' p])"

definition z_boolean :: "path_elem list \<Rightarrow> jsval \<Rightarrow> bool parse_result" where
  "z_boolean p v = (case v of JBool b \<Rightarrow> Inr b | _ \<Rightarrow> Inl [ZodIssue ''invalid_type'' p])"

definition z_record_unknown :: "path_elem list \<Rightarrow> jsval \<Rightarrow> (string \<times> jsval) list parse_result" where
  "z_record_unknown p v = (case v of JObj kvs \<Rightarrow> Inr kvs | _ \<Rightarrow> Inl [ZodIssue ''invalid_type'' p])"

definition z_optional ::
  "(path_elem list \<Rightarrow> jsval \<Rightarrow> 'a parse_result) \<Rightarrow> path_elem list \<Rightarrow> jsval \<Rightarrow> 'a option parse_result" where
  "z_optional schema p v =
     (case v of
        JUndefined \<Rightarrow> Inr None
      | _ \<Rightarrow> (case schema p v of Inl is \<Rightarrow> Inl is | Inr a \<Rightarrow> Inr (Some a)))"

fun collect :: "'a parse_result list \<Rightarrow> 'a list parse_result" where
  "collect [] = Inr []"
| "collect (r # rs) =
     (case (r, collect rs) of
        (Inr a, Inr as) \<Rightarrow> Inr (a # as)
      | (r', rs') \<Rightarrow> Inl (issues r' @ issues rs'))"

definition z_array ::
  "(path_elem list \<Rightarrow> jsval \<Rightarrow> 'a parse_result) \<Rightarrow> path_elem list \<Rightarrow> jsval \<Rightarrow> 'a list parse_result" where
  "z_array schema p v =
     (case v of
        JArr xs \<Rightarrow> collect (map (\<lambda>(i, x). schema (p @ [Index i]) x) (enumerate 0 xs))
      | _ \<Rightarrow> Inl [ZodIssue ''invalid_type'' p])"

definition function_call_schema :: "path_elem list \<Rightarrow> jsval \<Rightarrow> (string \<times> string) parse_result" where
  "function_call_schema p v =
     (case v of
        JObj kvs \<Rightarrow>
          (let n = z_string (p @ [Key ''name'']) (obj_get kvs ''name'');
               a = z_string (p @ [Key ''arguments'']) (obj_get kvs ''arguments'')
           in case (n, a) of
                (Inr n', Inr a') \<Rightarrow> Inr (n', a')
              | _ \<Rightarrow> Inl (issues n @ issues a))
      | _ \<Rightarrow> Inl [ZodIssue ''invalid_type'' p])"

definition message_schema :: "path_elem list \<Rightarrow> jsval \<Rightarrow> Message parse_result" where
  "message_schema p v =
     (case v of
        JObj kvs \<Rightarrow>
          (let r = z_enum [''user'', ''assistant'', ''system''] (p @ [Key ''role'']) (obj_get kvs ''role'');
               c = z_string_min 0 (p @ [Key ''content'']) (obj_get kvs ''content'');
               n = z_optional z_string (p @ [Key ''name'']) (obj_get kvs ''name'');
               f = z_optional function_call_schema (p @ [Key ''function_call''])
                     (obj_get kvs ''function_call'')
           in case (r, c, n, f) of
                (Inr r', Inr c', Inr n', Inr f') \<Rightarrow>
                  Inr \<lparr>role = r', content = c', name = n', function_call = f'\<rparr>
              | _ \<Rightarrow> Inl (issues r @ issues c @ issues n @ issues f))
      | _ \<Rightarrow> Inl [ZodIssue ''invalid_type'' p])"

definition chatRequestSchema :: "jsval \<Rightarrow> ChatRequest parse_result" where
  "chatRequestSchema v =
     (case v of
        JObj kvs \<Rightarrow>
          (let m = z_enum [''openai'', ''gemini'', ''deepseek''] [Key ''model''] (obj_get kvs ''model'');
               ms = z_array message_schema [Key ''messages''] (obj_get kvs ''messages'');
               s = z_optional z_boolean [Key ''stream''] (obj_get kvs ''stream'');
               ps = z_optional z_record_unknown [Key ''parameters''] (obj_get kvs ''parameters'')
           in case (m, ms, s, ps) of
                (Inr m', Inr ms', Inr s', Inr ps') \<Rightarrow>
                  Inr \<lparr>model = m', messages = ms', stream = s', parameters = ps'\<rparr>
              | _ \<Rightarrow> Inl (issues m @ issues ms @ issues s @ issues ps))
      | _ \<Rightarrow> Inl [ZodIssue ''invalid_type'' []])"

section \<open>The shared opening of the handlers\<close>

text \<open>
  \<open>await req.json()\<close> either throws a \<open>SyntaxError\<close> with some message (the body is not
  JSON) or gives the decoded payload, a JSON value.
\<close>

datatype request = Malformed string | Parsed jsval

text \<open>
  \<open>(msg) => ({ role: msg.role, content: msg.content?.trim() || "" })\<close>. Reading a
  property of \<open>null\<close> throws, and so does calling \<open>trim\<close> on a content that is neither
  absent nor a string. The messages are those of V8.
\<close>

definition clean_message :: "jsval \<Rightarrow> thrown + jsval" where
  "clean_message msg =
     (case msg of
        JUndefined \<Rightarrow> Inl (TypeError ''Cannot read properties of undefined (reading 'role')'')
      | JNull \<Rightarrow> Inl (TypeError ''Cannot read properties of null (reading 'role')'')
      | _ \<Rightarrow>
          (case get_prop msg ''content'' of
             JUndefined \<Rightarrow> Inr (JObj [(''role'', get_prop msg ''role''), (''content'', JStr [])])
           | JNull \<Rightarrow> Inr (JObj [(''role'', get_prop msg ''role''), (''content'', JStr [])])
           | JStr s \<Rightarrow>
               Inr (JObj [(''role'', get_prop msg ''role''),
                          (''content'', JStr (if trim s \<noteq> [] then trim s else []))])
           | _ \<Rightarrow> Inl (TypeError ''msg.content?.trim is not a function'')))"

fun map_throwing :: "('a \<Rightarrow> thrown + 'b) \<Rightarrow> 'a list \<Rightarrow> thrown + 'b list" where
  "map_throwing f [] = Inr []"
| "map_throwing f (x # xs) =
     (case f x of
        Inl e \<Rightarrow> Inl e
      | Inr y \<Rightarrow> (case map_throwing f xs of Inl e \<Rightarrow> Inl e | Inr ys \<Rightarrow> Inr (y # ys)))"

text \<open>\<open>const cleanedMessages = body.messages.map(...)\<close>\<close>

definition cleanedMessages :: "jsval \<Rightarrow> thrown + jsval list" where
  "cleanedMessages body =
     (case body of
        JUndefined \<Rightarrow> Inl (TypeError ''Cannot read properties of undefined (reading 'messages')'')
      | JNull \<Rightarrow> Inl (TypeError ''Cannot read properties of null (reading 'messages')'')
      | _ \<Rightarrow>
          (case get_prop body ''messages'' of
             JArr ms \<Rightarrow> map_throwing clean_message ms
           | JUndefined \<Rightarrow> Inl (TypeError ''Cannot read properties of undefined (reading 'map')'')
           | JNull \<Rightarrow> Inl (TypeError ''Cannot read properties of null (reading 'map')'')
           | _ \<Rightarrow> Inl (TypeError ''body.messages.map is not a function'')))"

text \<open>
  \<open>{ ...body, messages: cleanedMessages }\<close>. Where \<open>body.messages\<close> was an array, the body
  is an object and the spread copies its properties.
\<close>

definition with_messages :: "jsval \<Rightarrow> jsval list \<Rightarrow> jsval" where
  "with_messages body cleaned =
     JObj (AList.update ''messages'' (JArr cleaned) (case body of JObj kvs \<Rightarrow> kvs | _ \<Rightarrow> []))"

text \<open>
  Cleaning, \<open>safeParse\<close> and the throw of the validation error: the block every handler
  repeats, up to \<open>validationResult.data\<close>.
\<close>

definition validated :: "jsval \<Rightarrow> thrown + ChatRequest" where
  "validated body =
     (case cleanedMessages body of
        Inl e \<Rightarrow> Inl e
      | Inr cleaned \<Rightarrow>
          (case chatRequestSchema (with_messages body cleaned) of
             Inl is \<Rightarrow>
               Inl (ThrownChatError
                     (ChatErrorImpl ''Invalid request format'' 400 VALIDATION_ERROR (ZodDetails is)
                        (Some ''Please check your message format and try again.'')))
           | Inr data \<Rightarrow> Inr data))"


section \<open>Responses\<close>

record Usage =
  promptTokens :: int
  completionTokens :: int
  totalTokens :: int

text \<open>
  The JSON body of a response. A field whose value is \<open>undefined\<close> is left out by
  \<open>NextResponse.json\<close>: it is \<open>None\<close> here. The \<open>reply\<close> is whatever value the handler
  puts there, and so are the details, which are taken to be data that serialises.
\<close>

record ChatResponse =
  reply :: jsval
  usage :: "Usage option"
  error :: "string option"
  errorType :: "ErrorType option"
  body_suggestion :: "string option"
  body_details :: details_t

record NextResponse =
  status :: int
  body :: ChatResponse

text \<open>
  \<open>NextResponse.json(body, { status })\<close> builds the response with \<open>Response.json\<close>: the
  status is taken as an unsigned 16-bit number, a status outside 200..599 throws a
  \<open>RangeError\<close>, and a status that allows no body (204, 205, 304) throws a
  \<open>TypeError\<close>, the body being there.
\<close>

definition NextResponse_json :: "ChatResponse \<Rightarrow> int \<Rightarrow> thrown + NextResponse" where
  "NextResponse_json b st =
     (let s = st mod 65536
      in if s < 200 \<or> 599 < s then
           Inl (RangeError
                  (''init['' @ [CHR 0x22] @ ''status'' @ [CHR 0x22] @
                   ''] must be in the range of 200 to 599, inclusive.''))
         else if s = 204 \<or> s = 205 \<or> s = 304 then
           Inl (TypeError (''Response constructor: Invalid response status code '' @
                  string_of_nat (nat s)))
         else Inr \<lparr>status = s, body = b\<rparr>)"

text \<open>\<open>NextResponse.json({ reply, usage })\<close>, with the status 200 of the default.\<close>

definition reply_response :: "jsval \<Rightarrow> Usage option \<Rightarrow> NextResponse" where
  "reply_response r u =
     \<lparr>status = 200,
      body = \<lparr>reply = r, usage = u, error = None, errorType = None, body_suggestion = None,
              body_details = NoDetails\<rparr>\<rparr>"

text \<open>The body every \<open>catch\<close> block builds from \<open>chatError\<close>.\<close>

definition error_body :: "ChatError \<Rightarrow> ChatResponse" where
  "error_body chatError =
     \<lparr>reply = JStr [], usage = None, error = Some (message chatError),
      errorType = Some (type chatError), body_suggestion = suggestion chatError,
      body_details = details chatError\<rparr>"

text \<open>
  A \<open>catch\<close> block: \<open>const chatError = createErrorResponse(error, defaultMessage); return
  NextResponse.json({...}, { status: chatError.statusCode })\<close>. It returns the response or
  throws what either call throws.
\<close>

definition catch_block :: "thrown \<Rightarrow> string \<Rightarrow> thrown + NextResponse" where
  "catch_block e defaultMessage =
     (case createErrorResponse e defaultMessage of
        Inl t \<Rightarrow> Inl t
      | Inr chatError \<Rightarrow> NextResponse_json (error_body chatError) (statusCode chatError))"

text \<open>\<open>try { ... } catch (error) { ... }\<close> around a computation that returns or throws.\<close>

definition try_catch :: "thrown + 'a \<Rightarrow> (thrown \<Rightarrow> thrown + 'a) \<Rightarrow> thrown + 'a" where
  "try_catch attempt handler = (case attempt of Inl e \<Rightarrow> handler e | Inr x \<Rightarrow> Inr x)"

section \<open>The providers and the environment\<close>

record env =
  OPENAI_API_KEY :: "string option"
  GEMINI_API_KEY :: "string option"
  DEEPSEEK_API_KEY :: "string option"

text \<open>\<open>!process.env.KEY\<close>: the variable is not set, or set to the empty string.\<close>

definition not_set :: "string option \<Rightarrow> bool" where
  "not_set k = (case k of None \<Rightarrow> True | Some s \<Rightarrow> s = [])"

text \<open>
  What the clients of OpenAI and Gemini answer, at the types the clients declare; only
  the fields the handlers read are kept. A stream is the chunks it yields and then its
  end: normal, or a thrown value. The HTTP client of the DeepSeek adapter answers with
  \<open>res.data\<close>, a value of any shape.
\<close>

datatype chat_message = ChatMessage (message_content: "string option")

datatype choice = Choice (choice_message: "chat_message option")

datatype openai_usage =
  OpenAIUsage (prompt_tokens: int) (completion_tokens: int) (total_tokens: int)

datatype ChatCompletion =
  ChatCompletion (choices: "choice list") (completion_usage: "openai_usage option")

datatype delta = Delta (delta_content: "string option")

datatype chunk_choice = ChunkChoice (choice_delta: "delta option")

datatype ChatCompletionChunk = ChatCompletionChunk (chunk_choices: "chunk_choice list")

datatype 'c chunk_stream = ChunkStream (chunks: "'c list") (stream_end: "thrown option")

datatype openai_result = Single ChatCompletion | Streamed "ChatCompletionChunk chunk_stream"

datatype part = Part (part_text: "string option")

datatype gemini_content = GeminiContent (content_parts: "part list option")

datatype candidate = Candidate (candidate_content: "gemini_content option")

datatype GenerateContentResponse = GenerateContentResponse (candidates: "candidate list option")

datatype gemini_chunk = GeminiChunk (chunk_text: "string option")

text \<open>
  The remote calls, each a function of the request it is given: it throws or answers.
  The last is the \<open>fetch\<close> by which the router posts to one of its own routes, with the
  headers of the inbound request and the payload serialised again: it fails with a
  \<open>TypeError\<close> of some message, or the route receives a request.
\<close>

record providers =
  openai_create :: "jsval \<Rightarrow> thrown + openai_result"
  generateContent :: "jsval \<Rightarrow> thrown + GenerateContentResponse"
  generateContentStream :: "jsval \<Rightarrow> thrown + gemini_chunk chunk_stream"
  axios_post :: "jsval \<Rightarrow> thrown + jsval"
  fetch :: "string \<Rightarrow> jsval \<Rightarrow> string + request"

text \<open>The calls a handler makes that leave it, in the order it makes them.\<close>

datatype outbound_call =
    Fetch string jsval
  | OpenAICreate jsval
  | GenerateContent jsval
  | GenerateContentStream jsval
  | AxiosPost string jsval

text \<open>\<open>xs[0]\<close>: the first element, \<open>undefined\<close> for an empty array.\<close>

definition first :: "'a list \<Rightarrow> 'a option" where
  "first xs = (case xs of [] \<Rightarrow> None | x # _ \<Rightarrow> Some x)"

text \<open>\<open>x || ""\<close> for a text that may be absent.\<close>

definition or_empty :: "string option \<Rightarrow> string" where
  "or_empty t = (case t of None \<Rightarrow> [] | Some s \<Rightarrow> s)"

text \<open>
  \<open>{ ...defaults, ...parameters }\<close>: the properties of the defaults, each replaced by the
  property of \<open>parameters\<close> with the same key, and the other properties of \<open>parameters\<close>.
  Spreading \<open>undefined\<close> adds nothing.
\<close>

definition spread :: "(string \<times> jsval) list \<Rightarrow> (string \<times> jsval) list option \<Rightarrow> jsval" where
  "spread defaults ps = JObj (AList.merge defaults (case ps of None \<Rightarrow> [] | Some kvs \<Rightarrow> kvs))"

text \<open>
  A handler gives its response (\<open>Inr\<close>) or throws (\<open>Inl\<close>), and has made its outbound
  calls. Its body is a \<open>try\<close> whose \<open>catch\<close> answers with the default message.
\<close>

type_synonym handled = "(thrown + NextResponse) \<times> outbound_call list"

definition outer_catch :: "handled \<Rightarrow> handled" where
  "outer_catch attempt =
     (try_catch (fst attempt) (\<lambda>e. catch_block e unexpected), snd attempt)"

section \<open>The DeepSeek adapter (deepseek/route.ts)\<close>

definition deepseek_endpoint :: string where
  "deepseek_endpoint = ''https://api.deepseek.com/chat/completions''"

definition deepseek_requestBody :: "ChatRequest \<Rightarrow> jsval" where
  "deepseek_requestBody d =
     spread
       [(''model'', JStr ''deepseek-chat''),
        (''messages'',
           JArr (map (\<lambda>msg. JObj [(''role'', JStr (role msg)), (''content'', JStr (content msg))])
                  (messages d))),
        (''temperature'', JNum 0.7),
        (''max_tokens'', JNum 1000)]
       (parameters d)"

text \<open>
  \<open>res.data.choices?.[0]?.message?.content || ""\<close>. Reading \<open>choices\<close> of a \<open>res.data\<close>
  that is \<open>undefined\<close> or \<open>null\<close> throws.
\<close>

definition deepseek_reply :: "jsval \<Rightarrow> thrown + jsval" where
  "deepseek_reply data =
     (case data of
        JUndefined \<Rightarrow> Inl (TypeError ''Cannot read properties of undefined (reading 'choices')'')
      | JNull \<Rightarrow> Inl (TypeError ''Cannot read properties of null (reading 'choices')'')
      | _ \<Rightarrow>
          (let c = get_prop (get_prop (optional_first (get_prop data ''choices'')) ''message'')
                     ''content''
           in Inr (if truthy c then c else JStr [])))"

text \<open>The inner \<open>try\<close> with its \<open>catch\<close>.\<close>

definition deepseek_call :: "providers \<Rightarrow> ChatRequest \<Rightarrow> thrown + NextResponse" where
  "deepseek_call w d =
     try_catch
       (case axios_post w (deepseek_requestBody d) of
          Inl e \<Rightarrow> Inl e
        | Inr data \<Rightarrow>
            (case deepseek_reply data of
               Inl e \<Rightarrow> Inl e
             | Inr r \<Rightarrow> Inr (reply_response r None)))
       (\<lambda>e. catch_block e ''Failed to get response from DeepSeek'')"

definition POST_deepseek :: "env \<Rightarrow> providers \<Rightarrow> request \<Rightarrow> handled" where
  "POST_deepseek ev w req =
     outer_catch
       (if not_set (DEEPSEEK_API_KEY ev) then
          (Inl (ThrownChatError
                 (ChatErrorImpl ''DeepSeek API key is not configured'' 500 CONFIGURATION_ERROR
                    NoDetails
                    (Some ''Please configure your DeepSeek API key in the environment variables.''))),
           [])
        else
          (case req of
             Malformed m \<Rightarrow> (Inl (SyntaxError m), [])
           | Parsed json \<Rightarrow>
               (case validated json of
                  Inl e \<Rightarrow> (Inl e, [])
                | Inr d \<Rightarrow>
                    (deepseek_call w d, [AxiosPost deepseek_endpoint (deepseek_requestBody d)]))))"

section \<open>The OpenAI adapter\<close>

definition js_option :: "('a \<Rightarrow> jsval) \<Rightarrow> 'a option \<Rightarrow> jsval" where
  "js_option f x = (case x of None \<Rightarrow> JUndefined | Some a \<Rightarrow> f a)"

definition openai_message :: "Message \<Rightarrow> jsval" where
  "openai_message msg =
     JObj [(''role'', JStr (role msg)),
           (''content'', JStr (content msg)),
           (''name'', js_option JStr (name msg)),
           (''function_call'',
              js_option (\<lambda>(n, a). JObj [(''name'', JStr n), (''arguments'', JStr a)])
                (function_call msg))]"

text \<open>The argument of \<open>openai.chat.completions.create\<close>; \<open>stream ?? false\<close> is its flag.\<close>

definition openai_requestBody :: "ChatRequest \<Rightarrow> jsval" where
  "openai_requestBody d =
     spread
       [(''model'', JStr ''gpt-3.5-turbo''),
        (''messages'', JArr (map openai_message (messages d))),
        (''temperature'', JNum 0.7),
        (''max_tokens'', JNum 1000),
        (''top_p'', JNum 1),
        (''presence_penalty'', JNum 0),
        (''frequency_penalty'', JNum 0),
        (''stream'', JBool (case stream d of None \<Rightarrow> False | Some b \<Rightarrow> b))]
       (parameters d)"

text \<open>\<open>chunk.choices[0]?.delta?.content || ""\<close>\<close>

definition chunk_content :: "ChatCompletionChunk \<Rightarrow> string" where
  "chunk_content chunk =
     or_empty
       (case first (chunk_choices chunk) of
          None \<Rightarrow> None
        | Some c \<Rightarrow> (case choice_delta c of None \<Rightarrow> None | Some dl \<Rightarrow> delta_content dl))"

text \<open>
  The loop \<open>for await (const chunk of stream) { ...; fullContent += content; }\<close>, on the
  chunks the stream yields.
\<close>

fun openai_accumulate :: "string \<Rightarrow> ChatCompletionChunk list \<Rightarrow> string" where
  "openai_accumulate fullContent [] = fullContent"
| "openai_accumulate fullContent (chunk # rest) =
     openai_accumulate (fullContent @ chunk_content chunk) rest"

text \<open>\<open>response.choices[0]?.message?.content || ""\<close>\<close>

definition completion_reply :: "ChatCompletion \<Rightarrow> string" where
  "completion_reply response =
     or_empty
       (case first (choices response) of
          None \<Rightarrow> None
        | Some c \<Rightarrow> (case choice_message c of None \<Rightarrow> None | Some m \<Rightarrow> message_content m))"

definition completion_usage_of :: "ChatCompletion \<Rightarrow> Usage option" where
  "completion_usage_of response =
     (case completion_usage response of
        None \<Rightarrow> None
      | Some u \<Rightarrow>
          Some \<lparr>promptTokens = prompt_tokens u, completionTokens = completion_tokens u,
                totalTokens = total_tokens u\<rparr>)"

text \<open>
  What follows the call: the branch is chosen by the \<open>stream\<close> of the request, whatever
  the call returned. Iterating over a completion that is no stream throws, and so does
  reading \<open>choices[0]\<close> of a stream.
\<close>

definition openai_read :: "bool option \<Rightarrow> openai_result \<Rightarrow> thrown + NextResponse" where
  "openai_read s completion =
     (if s = Some True then
        (case completion of
           Streamed st \<Rightarrow>
             (case stream_end st of
                None \<Rightarrow> Inr (reply_response (JStr (openai_accumulate [] (chunks st))) None)
              | Some e \<Rightarrow> Inl e)
         | Single c \<Rightarrow> Inl (TypeError ''stream is not async iterable''))
      else
        (case completion of
           Single response \<Rightarrow>
             Inr (reply_response (JStr (completion_reply response)) (completion_usage_of response))
         | Streamed st \<Rightarrow> Inl (TypeError ''Cannot read properties of undefined (reading '0')'')))"

text \<open>The inner \<open>try\<close> with its \<open>catch\<close>.\<close>

definition openai_call :: "providers \<Rightarrow> ChatRequest \<Rightarrow> thrown + NextResponse" where
  "openai_call w d =
     try_catch
       (case openai_create w (openai_requestBody d) of
          Inl e \<Rightarrow> Inl e
        | Inr completion \<Rightarrow> openai_read (stream d) completion)
       (\<lambda>e. catch_block e ''Failed to get response from OpenAI'')"

definition POST_openai :: "env \<Rightarrow> providers \<Rightarrow> request \<Rightarrow> handled" where
  "POST_openai ev w req =
     outer_catch
       (if not_set (OPENAI_API_KEY ev) then
          (Inl (ThrownChatError
                 (ChatErrorImpl ''OpenAI API key is not configured'' 500 CONFIGURATION_ERROR
                    NoDetails
                    (Some ''Please configure your OpenAI API key in the environment variables.''))),
           [])
        else
          (case req of
             Malformed m \<Rightarrow> (Inl (SyntaxError m), [])
           | Parsed json \<Rightarrow>
               (case validated json of
                  Inl e \<Rightarrow> (Inl e, [])
                | Inr d \<Rightarrow> (openai_call w d, [OpenAICreate (openai_requestBody d)]))))"

text \<open>
  The module of the route creates its client when it is loaded:
  \<open>new OpenAI({ apiKey: process.env.OPENAI_API_KEY, ... })\<close>. The constructor throws when
  the key it is given is \<open>undefined\<close>, and a route whose module cannot be loaded runs no
  handler.
\<close>

definition openai_client :: "env \<Rightarrow> thrown option" where
  "openai_client ev =
     (case OPENAI_API_KEY ev of
        None \<Rightarrow>
          Some (ThrownError (JsError
            (Text (''The OPENAI_API_KEY environment variable is missing or empty; either '' @
                   ''provide it, or instantiate the OpenAI client with an apiKey option, '' @
                   ''like new OpenAI({ apiKey: 'My API Key' }).''))
            None None))
      | Some k \<Rightarrow> None)"

definition route_openai :: "env \<Rightarrow> providers \<Rightarrow> request \<Rightarrow> handled" where
  "route_openai ev w req =
     (case openai_client ev of Some e \<Rightarrow> (Inl e, []) | None \<Rightarrow> POST_openai ev w req)"

section \<open>The Gemini adapter\<close>

text \<open>
  The module of this route creates its client when it is loaded as well,
  \<open>new GoogleGenAI({ apiKey: process.env.GEMINI_API_KEY })\<close>; this constructor takes an
  absent key without throwing, so the route is its handler. The DeepSeek route creates
  no client.
\<close>

definition gemini_contents :: "Message list \<Rightarrow> jsval" where
  "gemini_contents ms =
     JArr (map (\<lambda>msg.
                  JObj [(''role'', JStr (if role msg = ''assistant'' then ''model'' else ''user'')),
                        (''parts'', JArr [JObj [(''text'', JStr (content msg))]])])
             ms)"

definition gemini_request :: "ChatRequest \<Rightarrow> jsval" where
  "gemini_request d =
     JObj [(''model'', JStr ''gemini-2.0-flash-001''), (''contents'', gemini_contents (messages d))]"

text \<open>
  The loop \<open>for await (const chunk of response) { if (chunk.text) fullContent += chunk.text; }\<close>
\<close>

fun gemini_accumulate :: "string \<Rightarrow> gemini_chunk list \<Rightarrow> string" where
  "gemini_accumulate fullContent [] = fullContent"
| "gemini_accumulate fullContent (chunk # rest) =
     gemini_accumulate
       (case chunk_text chunk of
          None \<Rightarrow> fullContent
        | Some t \<Rightarrow> if t \<noteq> [] then fullContent @ t else fullContent)
       rest"

text \<open>\<open>response.candidates?.[0]?.content?.parts?.[0]?.text || ""\<close>\<close>

definition gemini_reply :: "GenerateContentResponse \<Rightarrow> string" where
  "gemini_reply response =
     or_empty
       (case candidates response of
          None \<Rightarrow> None
        | Some cs \<Rightarrow>
            (case first cs of
               None \<Rightarrow> None
             | Some c \<Rightarrow>
                 (case candidate_content c of
                    None \<Rightarrow> None
                  | Some ct \<Rightarrow>
                      (case content_parts ct of
                         None \<Rightarrow> None
                       | Some ps \<Rightarrow> (case first ps of None \<Rightarrow> None | Some p \<Rightarrow> part_text p)))))"

text \<open>The inner \<open>try\<close> with its \<open>catch\<close>.\<close>

definition gemini_call :: "providers \<Rightarrow> ChatRequest \<Rightarrow> thrown + NextResponse" where
  "gemini_call w d =
     try_catch
       (if stream d = Some True then
          (case generateContentStream w (gemini_request d) of
             Inl e \<Rightarrow> Inl e
           | Inr response \<Rightarrow>
               (case stream_end response of
                  Some e \<Rightarrow> Inl e
                | None \<Rightarrow>
                    Inr (reply_response (JStr (gemini_accumulate [] (chunks response))) None)))
        else
          (case generateContent w (gemini_request d) of
             Inl e \<Rightarrow> Inl e
           | Inr response \<Rightarrow> Inr (reply_response (JStr (gemini_reply response)) None)))
       (\<lambda>e. catch_block e ''Failed to get response from Gemini'')"

definition POST_gemini :: "env \<Rightarrow> providers \<Rightarrow> request \<Rightarrow> handled" where
  "POST_gemini ev w req =
     outer_catch
       (if not_set (GEMINI_API_KEY ev) then
          (Inl (ThrownChatError
                 (ChatErrorImpl ''Gemini API key is not configured'' 500 CONFIGURATION_ERROR
                    NoDetails
                    (Some ''Please configure your Gemini API key in the environment variables.''))),
           [])
        else
          (case req of
             Malformed m \<Rightarrow> (Inl (SyntaxError m), [])
           | Parsed json \<Rightarrow>
               (case validated json of
                  Inl e \<Rightarrow> (Inl e, [])
                | Inr d \<Rightarrow>
                    (gemini_call w d,
                     [(if stream d = Some True then GenerateContentStream else GenerateContent)
                        (gemini_request d)]))))"

section \<open>The router\<close>

text \<open>
  \<open>response = await fetch(new URL(route, req.url), {...}); responseData = await
  response.json(); return NextResponse.json(responseData, { status: response.status })\<close>.
  The fetch fails, or the route receives a request and answers it. A route that gives no
  response of its own (its module did not load, or its handler threw) is answered for by
  the framework with an error page, and \<open>response.json()\<close> throws a \<open>SyntaxError\<close> on it.
\<close>

definition error_page_message :: string where
  "error_page_message =
     ''Unexpected token '<', '' @ [CHR 0x22] @ ''<!DOCTYPE '' @ [CHR 0x22] @
     ''... is not valid JSON''"

definition dispatch :: "providers \<Rightarrow> string \<Rightarrow> (request \<Rightarrow> handled) \<Rightarrow> jsval \<Rightarrow> handled" where
  "dispatch w url route json =
     (case fetch w url json of
        Inl m \<Rightarrow> (Inl (TypeError m), [Fetch url json])
      | Inr delivered \<Rightarrow>
          (case fst (route delivered) of
             Inl crash \<Rightarrow> Inl (SyntaxError error_page_message)
           | Inr response \<Rightarrow> NextResponse_json (body response) (status response),
           Fetch url json # snd (route delivered)))"

text \<open>
  The router validates the payload and posts it, as it came, to the route of the model,
  and relays the body and status of the answer. The \<open>default\<close> of the \<open>switch\<close> throws.
\<close>

definition POST :: "env \<Rightarrow> providers \<Rightarrow> request \<Rightarrow> handled" where
  "POST ev w req =
     outer_catch
       (case req of
          Malformed m \<Rightarrow> (Inl (SyntaxError m), [])
        | Parsed json \<Rightarrow>
            (case validated json of
               Inl e \<Rightarrow> (Inl e, [])
             | Inr d \<Rightarrow>
                 if model d = ''openai'' then
                   dispatch w ''/api/ai-chat/openai'' (route_openai ev w) json
                 else if model d = ''gemini'' then
                   dispatch w ''/api/ai-chat/gemini'' (POST_gemini ev w) json
                 else if model d = ''deepseek'' then
                   dispatch w ''/api/ai-chat/deepseek'' (POST_deepseek ev w) json
                 else
                   (Inl (ThrownChatError
                          (ChatErrorImpl ''Unsupported model'' 400 UNSUPPORTED_MODEL NoDetails None)),
                    [])))"

section \<open>Example inputs\<close>

text \<open>
  An environment with every key set and one with none, and a transport mock: each
  provider gives the same answer to every request, and the fetch of the router delivers
  the payload to the route as it is.
\<close>

definition all_keys :: env where
  "all_keys =
     \<lparr>OPENAI_API_KEY = Some ''sk-openai'', GEMINI_API_KEY = Some ''sk-gemini'',
      DEEPSEEK_API_KEY = Some ''sk-deepseek''\<rparr>"

definition no_keys :: env where
  "no_keys = \<lparr>OPENAI_API_KEY = None, GEMINI_API_KEY = None, DEEPSEEK_API_KEY = None\<rparr>"

definition mock ::
  "thrown + openai_result \<Rightarrow> thrown + GenerateContentResponse \<Rightarrow>
   thrown + gemini_chunk chunk_stream \<Rightarrow> thrown + jsval \<Rightarrow> providers" where
  "mock a b c d =
     \<lparr>openai_create = (\<lambda>request. a), generateContent = (\<lambda>request. b),
      generateContentStream = (\<lambda>request. c), axios_post = (\<lambda>request. d),
      fetch = (\<lambda>url json. Inr (Parsed json))\<rparr>"

definition refused :: thrown where
  "refused = ThrownError (JsError (Text ''connect ECONNREFUSED'') None None)"

definition offline :: providers where
  "offline = mock (Inl refused) (Inl refused) (Inl refused) (Inl refused)"

section \<open>Properties of the error normalizer\<close>

subsection \<open>Status codes as strings\<close>













lemma uint_status:
  "uint (429 :: 16 word) = 429" "uint (401 :: 16 word) = 401" "uint (403 :: 16 word) = 403"
  "uint (500 :: 16 word) = 500" "uint (503 :: 16 word) = 503" "uint (400 :: 16 word) = 400"
  by simp_all





subsection \<open>The other branches\<close>


lemma createErrorResponse_thrown:
  "createErrorResponse x dm = Inl t \<Longrightarrow> \<exists>m. t = TypeError m"
  by (cases x; cases "err_message (case x of ThrownError e \<Rightarrow> e)")
    (auto simp: network_message_def message_includes_def split: option.splits if_splits)





section \<open>Properties of cleaning and validation\<close>

lemma obj_get_update_other: "k \<noteq> k' \<Longrightarrow> obj_get (AList.update k v kvs) k' = obj_get kvs k'"
  by (simp add: obj_get_def update_conv')

lemma obj_get_update_same: "obj_get (AList.update k v kvs) k = v"
  by (simp add: obj_get_def update_conv')

lemma trim_whitespace: "\<forall>c\<in>set s. isWhiteSpace c \<Longrightarrow> trim s = []"
proof -
  assume "\<forall>c\<in>set s. isWhiteSpace c"
  then have dw: "dropWhile isWhiteSpace s = []" by (induction s) auto
  show ?thesis unfolding trim_def dw by simp
qed

lemma message_schema_cleaned:
  "message_schema p (JObj [(''role'', r), (''content'', JStr c)]) =
     (case z_enum [''user'', ''assistant'', ''system''] (p @ [Key ''role'']) r of
        Inl is \<Rightarrow> Inl is
      | Inr r' \<Rightarrow> Inr \<lparr>role = r', content = c, name = None, function_call = None\<rparr>)"
  by (simp add: message_schema_def obj_get_def z_string_min_def z_optional_def issues_def
      split: sum.splits)

lemma map_throwing_Inr:
  "map_throwing f xs = Inr ys \<Longrightarrow>
     length ys = length xs \<and> (\<forall>i<length xs. f (xs ! i) = Inr (ys ! i))"
proof (induction xs arbitrary: ys)
  case Nil
  then show ?case by simp
next
  case (Cons x xs)
  then obtain y ys' where y: "f x = Inr y" and ys': "map_throwing f xs = Inr ys'" and ys: "ys = y # ys'"
    by (auto split: sum.splits)
  from Cons.IH [OF ys'] y ys show ?case
    by (auto simp: nth_Cons split: nat.splits)
qed

lemma collect_Inr:
  "collect rs = Inr xs \<Longrightarrow> length xs = length rs \<and> (\<forall>i<length rs. rs ! i = Inr (xs ! i))"
proof (induction rs arbitrary: xs)
  case Nil
  then show ?case by simp
next
  case (Cons r rs)
  then obtain a as where a: "r = Inr a" and as: "collect rs = Inr as" and xs: "xs = a # as"
    by (auto split: sum.splits)
  from Cons.IH [OF as] a xs show ?case
    by (auto simp: nth_Cons split: nat.splits)
qed

lemma z_array_Inr:
  assumes "z_array schema p v = Inr xs"
  shows "\<exists>vs. v = JArr vs \<and> length xs = length vs \<and>
           (\<forall>i<length vs. schema (p @ [Index i]) (vs ! i) = Inr (xs ! i))"
proof -
  from assms obtain vs where v: "v = JArr vs"
    and c: "collect (map (\<lambda>(i, x). schema (p @ [Index i]) x) (enumerate 0 vs)) = Inr xs"
    by (auto simp: z_array_def split: jsval.splits)
  from collect_Inr [OF c] have "length xs = length vs"
    and "\<forall>i<length vs. schema (p @ [Index i]) (vs ! i) = Inr (xs ! i)"
    by (auto simp: nth_enumerate_eq)
  with v show ?thesis by blast
qed

lemma chatRequestSchema_Inr:
  assumes "chatRequestSchema v = Inr d"
  shows "\<exists>kvs. v = JObj kvs \<and>
     z_enum [''openai'', ''gemini'', ''deepseek''] [Key ''model''] (obj_get kvs ''model'') = Inr (model d) \<and>
     z_array message_schema [Key ''messages''] (obj_get kvs ''messages'') = Inr (messages d) \<and>
     z_optional z_boolean [Key ''stream''] (obj_get kvs ''stream'') = Inr (stream d) \<and>
     z_optional z_record_unknown [Key ''parameters''] (obj_get kvs ''parameters'') = Inr (parameters d)"
  using assms
  by (auto simp: chatRequestSchema_def Let_def split: jsval.splits sum.splits)

lemma cleanedMessages_Inr:
  assumes "cleanedMessages json = Inr cleaned"
  shows "\<exists>kvs ms. json = JObj kvs \<and> map_of kvs ''messages'' = Some (JArr ms) \<and>
           map_throwing clean_message ms = Inr cleaned"
  using assms
  by (auto simp: cleanedMessages_def get_prop_def obj_get_def TypeError_def
      split: jsval.splits option.splits)

lemma validated_Inr:
  assumes "validated json = Inr d"
  shows "\<exists>kvs ms cleaned. json = JObj kvs \<and> map_of kvs ''messages'' = Some (JArr ms) \<and>
           map_throwing clean_message ms = Inr cleaned \<and>
           chatRequestSchema (JObj (AList.update ''messages'' (JArr cleaned) kvs)) = Inr d"
proof -
  from assms obtain cleaned where c: "cleanedMessages json = Inr cleaned"
    and s: "chatRequestSchema (with_messages json cleaned) = Inr d"
    by (auto simp: validated_def split: sum.splits)
  from cleanedMessages_Inr [OF c] s show ?thesis
    by (auto simp: with_messages_def)
qed

lemma clean_message_Inr:
  assumes "clean_message msg = Inr c"
  shows "c = JObj [(''role'', get_prop msg ''role''),
                   (''content'', JStr (case get_prop msg ''content'' of JStr s \<Rightarrow> trim s | _ \<Rightarrow> []))]"
  using assms
  by (auto simp: clean_message_def TypeError_def split: jsval.splits)

text \<open>What the validated request holds, in terms of the payload.\<close>

lemma validated_request:
  assumes "validated json = Inr d"
  shows "\<exists>kvs ms. json = JObj kvs \<and> map_of kvs ''messages'' = Some (JArr ms) \<and>
     length (messages d) = length ms \<and>
     (\<forall>i<length ms.
        get_prop (ms ! i) ''role'' = JStr (role (messages d ! i)) \<and>
        role (messages d ! i) \<in> {''user'', ''assistant'', ''system''} \<and>
        content (messages d ! i) = (case get_prop (ms ! i) ''content'' of JStr s \<Rightarrow> trim s | _ \<Rightarrow> []) \<and>
        name (messages d ! i) = None \<and> function_call (messages d ! i) = None) \<and>
     obj_get kvs ''model'' = JStr (model d) \<and> model d \<in> {''openai'', ''gemini'', ''deepseek''} \<and>
     stream d = (case obj_get kvs ''stream'' of JBool b \<Rightarrow> Some b | _ \<Rightarrow> None) \<and>
     parameters d = (case obj_get kvs ''parameters'' of JObj ps \<Rightarrow> Some ps | _ \<Rightarrow> None)"
proof -
  from validated_Inr [OF assms] obtain kvs ms cleaned where
    json: "json = JObj kvs" and ms: "map_of kvs ''messages'' = Some (JArr ms)" and
    cl: "map_throwing clean_message ms = Inr cleaned" and
    sc: "chatRequestSchema (JObj (AList.update ''messages'' (JArr cleaned) kvs)) = Inr d"
    by blast
  from chatRequestSchema_Inr [OF sc] have
    m: "z_enum [''openai'', ''gemini'', ''deepseek''] [Key ''model''] (obj_get kvs ''model'') = Inr (model d)" and
    a: "z_array message_schema [Key ''messages''] (JArr cleaned) = Inr (messages d)" and
    s: "z_optional z_boolean [Key ''stream''] (obj_get kvs ''stream'') = Inr (stream d)" and
    p: "z_optional z_record_unknown [Key ''parameters''] (obj_get kvs ''parameters'') = Inr (parameters d)"
    by (auto simp: obj_get_update_other obj_get_update_same)
  from map_throwing_Inr [OF cl] have len1: "length cleaned = length ms"
    and cl_nth: "\<And>i. i < length ms \<Longrightarrow> clean_message (ms ! i) = Inr (cleaned ! i)" by auto
  from z_array_Inr [OF a] have len2: "length (messages d) = length cleaned"
    and sch_nth: "\<And>i. i < length cleaned \<Longrightarrow>
      message_schema ([Key ''messages''] @ [Index i]) (cleaned ! i) = Inr (messages d ! i)" by auto
  have each: "get_prop (ms ! i) ''role'' = JStr (role (messages d ! i)) \<and>
        role (messages d ! i) \<in> {''user'', ''assistant'', ''system''} \<and>
        content (messages d ! i) = (case get_prop (ms ! i) ''content'' of JStr s \<Rightarrow> trim s | _ \<Rightarrow> []) \<and>
        name (messages d ! i) = None \<and> function_call (messages d ! i) = None"
    if i: "i < length ms" for i
  proof -
    from clean_message_Inr [OF cl_nth [OF i]] sch_nth [of i] i len1
    have "message_schema ([Key ''messages''] @ [Index i])
        (JObj [(''role'', get_prop (ms ! i) ''role''),
               (''content'', JStr (case get_prop (ms ! i) ''content'' of JStr s \<Rightarrow> trim s | _ \<Rightarrow> []))])
        = Inr (messages d ! i)" by simp
    then obtain r' where
      zr: "z_enum [''user'', ''assistant'', ''system''] ([Key ''messages''] @ [Index i] @ [Key ''role''])
             (get_prop (ms ! i) ''role'') = Inr r'" and
      md: "messages d ! i =
             \<lparr>role = r',
              content = (case get_prop (ms ! i) ''content'' of JStr s \<Rightarrow> trim s | _ \<Rightarrow> []),
              name = None, function_call = None\<rparr>"
      by (auto simp: message_schema_cleaned split: sum.splits)
    from zr have "get_prop (ms ! i) ''role'' = JStr r' \<and> r' \<in> {''user'', ''assistant'', ''system''}"
      by (auto simp: z_enum_def split: jsval.splits if_splits)
    with md show ?thesis by simp
  qed
  from m have "obj_get kvs ''model'' = JStr (model d) \<and> model d \<in> {''openai'', ''gemini'', ''deepseek''}"
    by (auto simp: z_enum_def split: jsval.splits if_splits)
  moreover from s have "stream d = (case obj_get kvs ''stream'' of JBool b \<Rightarrow> Some b | _ \<Rightarrow> None)"
    by (auto simp: z_optional_def z_boolean_def split: jsval.splits sum.splits)
  moreover from p have "parameters d = (case obj_get kvs ''parameters'' of JObj ps \<Rightarrow> Some ps | _ \<Rightarrow> None)"
    by (auto simp: z_optional_def z_record_unknown_def split: jsval.splits sum.splits)
  ultimately show ?thesis using json ms len1 len2 each by auto
qed

text \<open>
  Claim C5. A message whose \<open>content\<close> is absent or consists of white space only is
  cleaned, before the schema sees it, into the message with the same role and the empty
  string as content. The schema never rejects that content: the only issues it can raise
  for a cleaned message are those of its role, and with one of the three roles the
  message is accepted. In a request that passes validation, the content handed on for
  such a message is the empty string.
\<close>

theorem empty_content_is_cleaned_and_accepted:
  assumes "map_of kvs ''content'' = None \<or>
           (\<exists>s. map_of kvs ''content'' = Some (JStr s) \<and> (\<forall>c\<in>set s. isWhiteSpace c))"
  shows "clean_message (JObj kvs) =
           Inr (JObj [(''role'', obj_get kvs ''role''), (''content'', JStr [])]) \<and>
         issues (message_schema p (JObj [(''role'', obj_get kvs ''role''), (''content'', JStr [])])) =
           issues (z_enum [''user'', ''assistant'', ''system''] (p @ [Key ''role''])
                     (obj_get kvs ''role'')) \<and>
         (\<forall>r. obj_get kvs ''role'' = JStr r \<and> r \<in> {''user'', ''assistant'', ''system''} \<longrightarrow>
            message_schema p (JObj [(''role'', obj_get kvs ''role''), (''content'', JStr [])]) =
              Inr \<lparr>role = r, content = [], name = None, function_call = None\<rparr>) \<and>
         (\<forall>payload ms i d.
            validated (JObj payload) = Inr d \<and> map_of payload ''messages'' = Some (JArr ms) \<and>
            i < length ms \<and> ms ! i = JObj kvs \<longrightarrow>
            i < length (messages d) \<and> content (messages d ! i) = [])"
proof -
  from assms have c: "(case obj_get kvs ''content'' of JStr s \<Rightarrow> trim s | _ \<Rightarrow> []) = []"
    by (auto simp: obj_get_def trim_whitespace)
  from assms have "clean_message (JObj kvs) =
      Inr (JObj [(''role'', obj_get kvs ''role''), (''content'', JStr [])])"
    by (auto simp: clean_message_def get_prop_def obj_get_def trim_whitespace)
  moreover have "issues (message_schema p (JObj [(''role'', obj_get kvs ''role''), (''content'', JStr [])])) =
      issues (z_enum [''user'', ''assistant'', ''system''] (p @ [Key ''role'']) (obj_get kvs ''role''))"
    by (simp add: message_schema_cleaned issues_def split: sum.splits)
  moreover have "\<forall>r. obj_get kvs ''role'' = JStr r \<and> r \<in> {''user'', ''assistant'', ''system''} \<longrightarrow>
      message_schema p (JObj [(''role'', obj_get kvs ''role''), (''content'', JStr [])]) =
        Inr \<lparr>role = r, content = [], name = None, function_call = None\<rparr>"
    by (auto simp: message_schema_cleaned z_enum_def)
  moreover have "i < length (messages d) \<and> content (messages d ! i) = []"
    if v: "validated (JObj payload) = Inr d" and m: "map_of payload ''messages'' = Some (JArr ms)"
      and i: "i < length ms" and k: "ms ! i = JObj kvs" for payload ms i d
  proof -
    from validated_request [OF v] m have len: "length (messages d) = length ms" and
      each: "\<forall>j<length ms. content (messages d ! j) =
        (case get_prop (ms ! j) ''content'' of JStr s \<Rightarrow> trim s | _ \<Rightarrow> [])"
      by auto
    from each i k c have "content (messages d ! i) = []" by (simp add: get_prop_def)
    with len i show ?thesis by simp
  qed
  ultimately show ?thesis by blast
qed

lemmas evaluation =
  validated_def cleanedMessages_def clean_message_def get_prop_def obj_get_def trim_def
  isWhiteSpace_def with_messages_def chatRequestSchema_def z_enum_def z_array_def
  message_schema_def z_string_min_def z_optional_def z_boolean_def z_record_unknown_def
  enumerate_eq_zip issues_def

theorem empty_content_is_cleaned_and_accepted_witness:
  "clean_message (JObj [(''role'', JStr ''user''), (''content'', JStr ''   '')]) =
     Inr (JObj [(''role'', JStr ''user''), (''content'', JStr [])]) \<and>
   clean_message (JObj [(''role'', JStr ''user'')]) =
     Inr (JObj [(''role'', JStr ''user''), (''content'', JStr [])]) \<and>
   message_schema [Key ''messages'', Index 0] (JObj [(''role'', JStr ''user''), (''content'', JStr [])]) =
     Inr \<lparr>role = ''user'', content = [], name = None, function_call = None\<rparr> \<and>
   validated (JObj [(''model'', JStr ''deepseek''),
                    (''messages'', JArr [JObj [(''role'', JStr ''user''), (''content'', JStr ''   '')]])]) =
     Inr \<lparr>model = ''deepseek'',
          messages = [\<lparr>role = ''user'', content = [], name = None, function_call = None\<rparr>],
          stream = None, parameters = None\<rparr>"
proof -
  have v: "validated (JObj [(''model'', JStr ''deepseek''),
                    (''messages'', JArr [JObj [(''role'', JStr ''user''), (''content'', JStr ''   '')]])]) =
     Inr \<lparr>model = ''deepseek'',
          messages = [\<lparr>role = ''user'', content = [], name = None, function_call = None\<rparr>],
          stream = None, parameters = None\<rparr>"
    by (simp add: evaluation)
  show ?thesis
    using empty_content_is_cleaned_and_accepted
        [of "[(''role'', JStr ''user''), (''content'', JStr ''   '')]" "[Key ''messages'', Index 0]"]
      empty_content_is_cleaned_and_accepted
        [of "[(''role'', JStr ''user'')]" "[Key ''messages'', Index 0]"]
      v
    by (simp add: obj_get_def isWhiteSpace_def)
qed

section \<open>Properties of the responses\<close>

lemma error_body_fields:
  "reply (error_body c) = JStr []"
  "error (error_body c) = Some (message c)"
  "errorType (error_body c) = Some (type c)"
  "usage (error_body c) = None"
  by (simp_all add: error_body_def)

lemma reply_response_fields:
  "status (reply_response r u) = 200"
  "reply (body (reply_response r u)) = r"
  "error (body (reply_response r u)) = None"
  "errorType (body (reply_response r u)) = None"
  "usage (body (reply_response r u)) = u"
  by (simp_all add: reply_response_def)

lemma NextResponse_json_valid:
  "200 \<le> st \<Longrightarrow> st \<le> 599 \<Longrightarrow> st \<noteq> 204 \<Longrightarrow> st \<noteq> 205 \<Longrightarrow> st \<noteq> 304 \<Longrightarrow>
   NextResponse_json b st = Inr \<lparr>status = st, body = b\<rparr>"
  by (simp add: NextResponse_json_def)

lemma NextResponse_json_Inr:
  assumes "NextResponse_json b st = Inr r"
  shows "body r = b" and "status r = st mod 65536" and "200 \<le> status r" and "status r \<le> 599"
    and "status r \<noteq> 204" and "status r \<noteq> 205" and "status r \<noteq> 304"
  using assms by (auto simp: NextResponse_json_def Let_def split: if_splits)

lemma NextResponse_json_Inl:
  "NextResponse_json b st = Inl t \<Longrightarrow> \<exists>m. t = ThrownError (JsError (Text m) None None)"
  by (auto simp: NextResponse_json_def Let_def RangeError_def TypeError_def split: if_splits)



lemma catch_block_Inr:
  assumes "catch_block e dm = Inr r"
  shows "\<exists>c. createErrorResponse e dm = Inr c \<and> body r = error_body c \<and>
             status r = statusCode c mod 65536"
  using assms NextResponse_json_Inr(1,2)
  by (auto simp: catch_block_def split: sum.splits)

lemma catch_block_Inl:
  assumes "catch_block e dm = Inl t"
  shows "\<exists>m. t = ThrownError (JsError (Text m) None None)"
proof (cases "createErrorResponse e dm")
  case (Inl t')
  with assms have "t = t'" by (simp add: catch_block_def)
  with createErrorResponse_thrown [OF Inl] show ?thesis by (auto simp: TypeError_def)
next
  case (Inr c)
  with assms have "NextResponse_json (error_body c) (statusCode c) = Inl t"
    by (simp add: catch_block_def)
  then show ?thesis by (rule NextResponse_json_Inl)
qed


text \<open>The \<open>catch\<close> blocks answer the errors of the engine and the errors the handlers make.\<close>

lemma catch_block_text:
  "catch_block (ThrownError (JsError (Text m) st None)) dm =
     Inr \<lparr>status = (if str_includes m ''network'' \<or> str_includes m ''connect'' then 503 else 500),
          body = error_body
            (if str_includes m ''network'' \<or> str_includes m ''connect''
             then ChatErrorImpl ''Unable to connect to the AI service.'' 503 NETWORK_ERROR
                    (ErrorDetails (JsError (Text m) st None))
                    (Some ''Please check your internet connection and try again.'')
             else ChatErrorImpl dm 500 UNKNOWN_ERROR (ErrorDetails (JsError (Text m) st None))
                    (Some ''Please try again later or contact support if the issue persists.''))\<rparr>"
  by (simp add: catch_block_def status_response_def network_message_def message_includes_def
      NETWORK_def default_error_def NextResponse_json_def)

lemma catch_block_ChatError:
  "200 \<le> st \<Longrightarrow> st \<le> 599 \<Longrightarrow> st \<noteq> 204 \<Longrightarrow> st \<noteq> 205 \<Longrightarrow> st \<noteq> 304 \<Longrightarrow>
   catch_block (ThrownChatError (ChatErrorImpl m st t d s)) dm =
     Inr \<lparr>status = st, body = error_body (ChatErrorImpl m st t d s)\<rparr>"
  by (simp add: catch_block_def NextResponse_json_valid)

lemma catch_block_unknown:
  "\<not> str_includes m ''network'' \<Longrightarrow> \<not> str_includes m ''connect'' \<Longrightarrow>
   catch_block (ThrownError (JsError (Text m) st None)) dm =
     Inr \<lparr>status = 500,
          body = \<lparr>reply = JStr [], usage = None, error = Some dm, errorType = Some UNKNOWN_ERROR,
                  body_suggestion =
                    Some ''Please try again later or contact support if the issue persists.'',
                  body_details = ErrorDetails (JsError (Text m) st None)\<rparr>\<rparr>"
  by (simp add: catch_block_text error_body_def)

text \<open>
  An inner \<open>catch\<close> inside the outer \<open>try\<close>: whatever the attempt does, a response comes
  out, which is the response of the attempt or the response of a \<open>catch\<close> block.
\<close>

lemma caught_once:
  assumes "(\<exists>m st. e = ThrownError (JsError (Text m) st None)) \<or>
           (\<exists>m st t d s. e = ThrownChatError (ChatErrorImpl m st t d s) \<and> st \<in> {400, 500})"
  shows "\<exists>r. catch_block e dm = Inr r"
  using assms by (auto simp: catch_block_text catch_block_ChatError)

lemma caught_twice:
  "\<exists>r. try_catch (try_catch attempt (\<lambda>e. catch_block e dm)) (\<lambda>e. catch_block e unexpected) = Inr r \<and>
       (attempt = Inr r \<or> (\<exists>e dm'. catch_block e dm' = Inr r))"
proof (cases attempt)
  case (Inr x)
  then show ?thesis by (simp add: try_catch_def)
next
  case (Inl e)
  show ?thesis
  proof (cases "catch_block e dm")
    case (Inr r)
    with Inl show ?thesis by (auto simp: try_catch_def)
  next
    case (Inl t)
    from catch_block_Inl [OF this] obtain m where t: "t = ThrownError (JsError (Text m) None None)"
      by blast
    from caught_once [of t unexpected] t obtain r where "catch_block t unexpected = Inr r" by blast
    with Inl \<open>attempt = Inl e\<close> show ?thesis by (auto simp: try_catch_def)
  qed
qed



section \<open>Properties of the handlers\<close>

subsection \<open>The steps of a handler\<close>

lemma POST_deepseek_steps:
  "not_set (DEEPSEEK_API_KEY ev) \<Longrightarrow>
     POST_deepseek ev w req =
       (Inr \<lparr>status = 500,
             body = \<lparr>reply = JStr [], usage = None,
                     error = Some ''DeepSeek API key is not configured'',
                     errorType = Some CONFIGURATION_ERROR,
                     body_suggestion =
                       Some ''Please configure your DeepSeek API key in the environment variables.'',
                     body_details = NoDetails\<rparr>\<rparr>, [])"
  "\<not> not_set (DEEPSEEK_API_KEY ev) \<Longrightarrow>
     POST_deepseek ev w (Malformed m) = (catch_block (SyntaxError m) unexpected, [])"
  "\<not> not_set (DEEPSEEK_API_KEY ev) \<Longrightarrow> validated json = Inl e \<Longrightarrow>
     POST_deepseek ev w (Parsed json) = (catch_block e unexpected, [])"
  "\<not> not_set (DEEPSEEK_API_KEY ev) \<Longrightarrow> validated json = Inr d \<Longrightarrow>
     POST_deepseek ev w (Parsed json) =
       (try_catch (deepseek_call w d) (\<lambda>e. catch_block e unexpected),
        [AxiosPost deepseek_endpoint (deepseek_requestBody d)])"
  by (simp_all add: POST_deepseek_def outer_catch_def try_catch_def catch_block_ChatError
      error_body_def)

lemma POST_openai_steps:
  "not_set (OPENAI_API_KEY ev) \<Longrightarrow>
     POST_openai ev w req =
       (Inr \<lparr>status = 500,
             body = \<lparr>reply = JStr [], usage = None,
                     error = Some ''OpenAI API key is not configured'',
                     errorType = Some CONFIGURATION_ERROR,
                     body_suggestion =
                       Some ''Please configure your OpenAI API key in the environment variables.'',
                     body_details = NoDetails\<rparr>\<rparr>, [])"
  "\<not> not_set (OPENAI_API_KEY ev) \<Longrightarrow>
     POST_openai ev w (Malformed m) = (catch_block (SyntaxError m) unexpected, [])"
  "\<not> not_set (OPENAI_API_KEY ev) \<Longrightarrow> validated json = Inl e \<Longrightarrow>
     POST_openai ev w (Parsed json) = (catch_block e unexpected, [])"
  "\<not> not_set (OPENAI_API_KEY ev) \<Longrightarrow> validated json = Inr d \<Longrightarrow>
     POST_openai ev w (Parsed json) =
       (try_catch (openai_call w d) (\<lambda>e. catch_block e unexpected),
        [OpenAICreate (openai_requestBody d)])"
  by (simp_all add: POST_openai_def outer_catch_def try_catch_def catch_block_ChatError
      error_body_def)

lemma POST_gemini_steps:
  "not_set (GEMINI_API_KEY ev) \<Longrightarrow>
     POST_gemini ev w req =
       (Inr \<lparr>status = 500,
             body = \<lparr>reply = JStr [], usage = None,
                     error = Some ''Gemini API key is not configured'',
                     errorType = Some CONFIGURATION_ERROR,
                     body_suggestion =
                       Some ''Please configure your Gemini API key in the environment variables.'',
                     body_details = NoDetails\<rparr>\<rparr>, [])"
  "\<not> not_set (GEMINI_API_KEY ev) \<Longrightarrow>
     POST_gemini ev w (Malformed m) = (catch_block (SyntaxError m) unexpected, [])"
  "\<not> not_set (GEMINI_API_KEY ev) \<Longrightarrow> validated json = Inl e \<Longrightarrow>
     POST_gemini ev w (Parsed json) = (catch_block e unexpected, [])"
  "\<not> not_set (GEMINI_API_KEY ev) \<Longrightarrow> validated json = Inr d \<Longrightarrow>
     POST_gemini ev w (Parsed json) =
       (try_catch (gemini_call w d) (\<lambda>e. catch_block e unexpected),
        [(if stream d = Some True then GenerateContentStream else GenerateContent)
           (gemini_request d)])"
  by (simp_all add: POST_gemini_def outer_catch_def try_catch_def catch_block_ChatError
      error_body_def)

lemma POST_steps:
  "POST ev w (Malformed m) = (catch_block (SyntaxError m) unexpected, [])"
  "validated json = Inl e \<Longrightarrow> POST ev w (Parsed json) = (catch_block e unexpected, [])"
  by (simp_all add: POST_def outer_catch_def try_catch_def)

lemma route_openai_steps:
  "OPENAI_API_KEY ev = Some k \<Longrightarrow> route_openai ev w req = POST_openai ev w req"
  "OPENAI_API_KEY ev = None \<Longrightarrow> \<exists>m. route_openai ev w req = (Inl (ThrownError (JsError (Text m) None None)), [])"
  by (simp_all add: route_openai_def openai_client_def)

lemma not_set_iff: "not_set k \<longleftrightarrow> k = None \<or> k = Some []"
  by (auto simp: not_set_def split: option.splits)

lemma error_page_unknown:
  "catch_block (SyntaxError error_page_message) unexpected =
     Inr \<lparr>status = 500,
          body = \<lparr>reply = JStr [], usage = None, error = Some ''An unexpected error occurred'',
                  errorType = Some UNKNOWN_ERROR,
                  body_suggestion =
                    Some ''Please try again later or contact support if the issue persists.'',
                  body_details = ErrorDetails (JsError (Text error_page_message) None None)\<rparr>\<rparr>"
proof -
  have "\<not> str_includes error_page_message ''network''"
    "\<not> str_includes error_page_message ''connect''"
    by (simp_all add: error_page_message_def)
  then show ?thesis
    by (simp add: SyntaxError_def catch_block_unknown unexpected_def)
qed

lemma dispatch_crash:
  "fetch w url json = Inr delivered \<Longrightarrow> fst (route delivered) = Inl crash \<Longrightarrow>
   outer_catch (dispatch w url route json) =
     (catch_block (SyntaxError error_page_message) unexpected, Fetch url json # snd (route delivered))"
  by (simp add: dispatch_def outer_catch_def try_catch_def)

subsection \<open>A missing API key\<close>

text \<open>
  Claim C3. An adapter whose API key is not in the environment, or is the empty string,
  which \<open>!process.env.KEY\<close> treats alike, and whose handler runs, answers every request,
  whatever its body, with status 500 and error type \<open>CONFIGURATION_ERROR\<close>, and calls no
  provider. So do the routes of Gemini and DeepSeek, and the route of OpenAI with the
  empty string for key. With no \<open>OPENAI_API_KEY\<close> in the environment the route of OpenAI
  does not: the constructor of its client throws when the module is loaded, no handler
  runs, the route gives no response of its own, and the router, which relays the route,
  answers a valid request for the model \<open>openai\<close> that was delivered with status 500 and
  \<open>UNKNOWN_ERROR\<close>.
\<close>

theorem missing_key_is_configuration_error:
  "(GEMINI_API_KEY ev = None \<or> GEMINI_API_KEY ev = Some [] \<longrightarrow>
      POST_gemini ev w req =
        (Inr \<lparr>status = 500,
              body = \<lparr>reply = JStr [], usage = None,
                      error = Some ''Gemini API key is not configured'',
                      errorType = Some CONFIGURATION_ERROR,
                      body_suggestion =
                        Some ''Please configure your Gemini API key in the environment variables.'',
                      body_details = NoDetails\<rparr>\<rparr>, [])) \<and>
   (DEEPSEEK_API_KEY ev = None \<or> DEEPSEEK_API_KEY ev = Some [] \<longrightarrow>
      POST_deepseek ev w req =
        (Inr \<lparr>status = 500,
              body = \<lparr>reply = JStr [], usage = None,
                      error = Some ''DeepSeek API key is not configured'',
                      errorType = Some CONFIGURATION_ERROR,
                      body_suggestion =
                        Some ''Please configure your DeepSeek API key in the environment variables.'',
                      body_details = NoDetails\<rparr>\<rparr>, [])) \<and>
   (OPENAI_API_KEY ev = None \<or> OPENAI_API_KEY ev = Some [] \<longrightarrow>
      POST_openai ev w req =
        (Inr \<lparr>status = 500,
              body = \<lparr>reply = JStr [], usage = None,
                      error = Some ''OpenAI API key is not configured'',
                      errorType = Some CONFIGURATION_ERROR,
                      body_suggestion =
                        Some ''Please configure your OpenAI API key in the environment variables.'',
                      body_details = NoDetails\<rparr>\<rparr>, [])) \<and>
   (OPENAI_API_KEY ev = Some [] \<longrightarrow> route_openai ev w req = POST_openai ev w req) \<and>
   (OPENAI_API_KEY ev = None \<longrightarrow>
      (\<exists>m. route_openai ev w req = (Inl (ThrownError (JsError (Text m) None None)), [])) \<and>
      (\<forall>json d delivered.
         validated json = Inr d \<and> model d = ''openai'' \<and>
         fetch w ''/api/ai-chat/openai'' json = Inr delivered \<longrightarrow>
           POST ev w (Parsed json) =
             (Inr \<lparr>status = 500,
                   body = \<lparr>reply = JStr [], usage = None,
                           error = Some ''An unexpected error occurred'',
                           errorType = Some UNKNOWN_ERROR,
                           body_suggestion =
                             Some ''Please try again later or contact support if the issue persists.'',
                           body_details =
                             ErrorDetails (JsError (Text error_page_message) None None)\<rparr>\<rparr>,
              [Fetch ''/api/ai-chat/openai'' json])))"
proof -
  have r: "OPENAI_API_KEY ev = None \<Longrightarrow>
      \<exists>m. route_openai ev w req' = (Inl (ThrownError (JsError (Text m) None None)), [])" for req'
    by (rule route_openai_steps(2))
  have "OPENAI_API_KEY ev = None \<Longrightarrow> validated json = Inr d \<Longrightarrow> model d = ''openai'' \<Longrightarrow>
      fetch w ''/api/ai-chat/openai'' json = Inr delivered \<Longrightarrow>
      POST ev w (Parsed json) =
        (catch_block (SyntaxError error_page_message) unexpected, [Fetch ''/api/ai-chat/openai'' json])"
    for json d delivered
  proof -
    assume a: "OPENAI_API_KEY ev = None" "validated json = Inr d" "model d = ''openai''"
      "fetch w ''/api/ai-chat/openai'' json = Inr delivered"
    from r [OF a(1), of delivered] obtain m where
      c: "route_openai ev w delivered = (Inl (ThrownError (JsError (Text m) None None)), [])"
      by blast
    then have "fst (route_openai ev w delivered) = Inl (ThrownError (JsError (Text m) None None))"
      "snd (route_openai ev w delivered) = []" by simp_all
    with dispatch_crash [OF a(4), of "route_openai ev w"] a(2,3) show ?thesis
      by (simp add: POST_def)
  qed
  then show ?thesis
    using r [of req]
    by (auto simp: POST_gemini_steps(1) POST_deepseek_steps(1) POST_openai_steps(1) not_set_iff
        route_openai_steps(1) error_page_unknown)
qed

theorem missing_key_is_configuration_error_witness:
  "POST_gemini no_keys offline (Malformed ''Unexpected end of JSON input'') =
     (Inr \<lparr>status = 500,
           body = \<lparr>reply = JStr [], usage = None,
                   error = Some ''Gemini API key is not configured'',
                   errorType = Some CONFIGURATION_ERROR,
                   body_suggestion =
                     Some ''Please configure your Gemini API key in the environment variables.'',
                   body_details = NoDetails\<rparr>\<rparr>, []) \<and>
   POST_deepseek no_keys offline (Parsed JNull) =
     (Inr \<lparr>status = 500,
           body = \<lparr>reply = JStr [], usage = None,
                   error = Some ''DeepSeek API key is not configured'',
                   errorType = Some CONFIGURATION_ERROR,
                   body_suggestion =
                     Some ''Please configure your DeepSeek API key in the environment variables.'',
                   body_details = NoDetails\<rparr>\<rparr>, []) \<and>
   (\<exists>m. route_openai no_keys offline (Parsed JNull) =
      (Inl (ThrownError (JsError (Text m) None None)), []))"
  using missing_key_is_configuration_error
      [of no_keys offline "Malformed ''Unexpected end of JSON input''"]
    missing_key_is_configuration_error [of no_keys offline "Parsed JNull"]
  by (simp add: no_keys_def)

subsection \<open>A payload without a messages array\<close>

lemma cleanedMessages_throws:
  assumes "\<not> (\<exists>kvs ms. json = JObj kvs \<and> map_of kvs ''messages'' = Some (JArr ms))"
  shows "\<exists>m. cleanedMessages json = Inl (TypeError m) \<and>
             \<not> str_includes m ''network'' \<and> \<not> str_includes m ''connect''"
proof (cases json)
  case (JObj kvs)
  with assms have "\<And>ms. map_of kvs ''messages'' \<noteq> Some (JArr ms)" by simp
  with JObj show ?thesis
    by (auto simp: cleanedMessages_def get_prop_def obj_get_def TypeError_def
        split: option.splits jsval.splits)
qed (auto simp: cleanedMessages_def get_prop_def TypeError_def)

text \<open>
  Claim C10, as the code has it. When the payload has no \<open>messages\<close> array (it is not an
  object, or its \<open>messages\<close> is absent or is not an array), \<open>body.messages.map\<close> throws a
  \<open>TypeError\<close> before the schema runs, and a handler that reaches this step answers with
  status 500 and error type \<open>UNKNOWN_ERROR\<close>, not with a validation error, and makes no
  outbound call. The router always reaches the step; an adapter reaches it when its API
  key is set, since it tests the key first.
\<close>

theorem cleaning_throws_without_messages_array:
  assumes "\<not> (\<exists>kvs ms. json = JObj kvs \<and> map_of kvs ''messages'' = Some (JArr ms))"
    and "H = POST ev \<or>
         (H = POST_openai ev \<and> (\<exists>k. OPENAI_API_KEY ev = Some k \<and> k \<noteq> [])) \<or>
         (H = route_openai ev \<and> (\<exists>k. OPENAI_API_KEY ev = Some k \<and> k \<noteq> [])) \<or>
         (H = POST_gemini ev \<and> (\<exists>k. GEMINI_API_KEY ev = Some k \<and> k \<noteq> [])) \<or>
         (H = POST_deepseek ev \<and> (\<exists>k. DEEPSEEK_API_KEY ev = Some k \<and> k \<noteq> []))"
  shows "(\<exists>m. cleanedMessages json = Inl (TypeError m)) \<and>
         (\<exists>r. fst (H w (Parsed json)) = Inr r \<and>
              status r = 500 \<and>
              errorType (body r) = Some UNKNOWN_ERROR \<and>
              error (body r) = Some ''An unexpected error occurred'' \<and>
              reply (body r) = JStr []) \<and>
         snd (H w (Parsed json)) = []"
proof -
  from cleanedMessages_throws [OF assms(1)] obtain m where
    c: "cleanedMessages json = Inl (TypeError m)" and
    n: "\<not> str_includes m ''network''" "\<not> str_includes m ''connect''" by blast
  from c have v: "validated json = Inl (TypeError m)" by (simp add: validated_def)
  from assms(2) have "H w (Parsed json) = (catch_block (TypeError m) unexpected, [])"
    by (auto simp: POST_steps(2) [OF v] POST_openai_steps(3) [OF _ v] POST_gemini_steps(3) [OF _ v]
        POST_deepseek_steps(3) [OF _ v] route_openai_steps(1) not_set_iff)
  with c n show ?thesis
    by (simp add: TypeError_def catch_block_unknown unexpected_def)
qed

theorem cleaning_throws_without_messages_array_witness:
  "(\<exists>r. fst (POST all_keys offline (Parsed (JObj [(''model'', JStr ''openai'')]))) = Inr r \<and>
        status r = 500 \<and> errorType (body r) = Some UNKNOWN_ERROR) \<and>
   (\<exists>r. fst (POST_deepseek all_keys offline
             (Parsed (JObj [(''model'', JStr ''deepseek''), (''messages'', JStr ''Hi'')]))) = Inr r \<and>
        status r = 500 \<and> errorType (body r) = Some UNKNOWN_ERROR) \<and>
   snd (POST_deepseek all_keys offline
       (Parsed (JObj [(''model'', JStr ''deepseek''), (''messages'', JStr ''Hi'')]))) = []"
  using cleaning_throws_without_messages_array
      [of "JObj [(''model'', JStr ''openai'')]" "POST all_keys" all_keys offline]
    cleaning_throws_without_messages_array
      [of "JObj [(''model'', JStr ''deepseek''), (''messages'', JStr ''Hi'')]"
        "POST_deepseek all_keys" all_keys offline]
  by (simp add: all_keys_def) blast

text \<open>
  Claim C10 as stated speaks of every handler. An adapter without its key answers the
  same payload with \<open>CONFIGURATION_ERROR\<close>: it never reaches the cleaning step.
\<close>

theorem adapter_without_key_counterexample:
  "fst (POST_deepseek no_keys offline (Parsed (JObj [(''model'', JStr ''deepseek'')]))) =
     Inr \<lparr>status = 500,
          body = \<lparr>reply = JStr [], usage = None,
                  error = Some ''DeepSeek API key is not configured'',
                  errorType = Some CONFIGURATION_ERROR,
                  body_suggestion =
                    Some ''Please configure your DeepSeek API key in the environment variables.'',
                  body_details = NoDetails\<rparr>\<rparr>"
  by (simp add: POST_deepseek_steps(1) no_keys_def not_set_def)

subsection \<open>A model that is not known\<close>

lemma map_throwing_completes:
  "(\<exists>ys. map_throwing f xs = Inr ys) \<longleftrightarrow> (\<forall>x\<in>set xs. \<exists>y. f x = Inr y)"
  by (induction xs) (auto split: sum.splits)

lemma clean_message_completes:
  "(\<exists>c. clean_message msg = Inr c) \<longleftrightarrow>
     msg \<noteq> JUndefined \<and> msg \<noteq> JNull \<and>
     (get_prop msg ''content'' = JUndefined \<or> get_prop msg ''content'' = JNull \<or>
      (\<exists>s. get_prop msg ''content'' = JStr s))"
  by (auto simp: clean_message_def TypeError_def split: jsval.splits)

lemma cleanedMessages_completes_array:
  "(\<exists>cleaned. cleanedMessages json = Inr cleaned) \<longleftrightarrow>
     (\<exists>kvs ms. json = JObj kvs \<and> map_of kvs ''messages'' = Some (JArr ms) \<and>
        (\<exists>cleaned. map_throwing clean_message ms = Inr cleaned))"
  by (auto simp: cleanedMessages_def get_prop_def obj_get_def TypeError_def
      split: jsval.splits option.splits)

text \<open>When the cleaning step completes.\<close>

lemma cleanedMessages_completes:
  "(\<exists>cleaned. cleanedMessages json = Inr cleaned) \<longleftrightarrow>
     (\<exists>kvs ms. json = JObj kvs \<and> map_of kvs ''messages'' = Some (JArr ms) \<and>
        (\<forall>msg\<in>set ms. msg \<noteq> JUndefined \<and> msg \<noteq> JNull \<and>
           (get_prop msg ''content'' = JUndefined \<or> get_prop msg ''content'' = JNull \<or>
            (\<exists>s. get_prop msg ''content'' = JStr s))))"
  by (simp only: cleanedMessages_completes_array map_throwing_completes clean_message_completes)

lemma z_enum_rejects:
  "v \<notin> JStr ` set vals \<Longrightarrow> \<exists>i. z_enum vals p v = Inl [i]"
  by (auto simp: z_enum_def split: jsval.splits)

lemma chatRequestSchema_rejects_model:
  assumes "z_enum [''openai'', ''gemini'', ''deepseek''] [Key ''model''] (obj_get kvs ''model'') = Inl is"
  shows "\<exists>is'. chatRequestSchema (JObj kvs) = Inl is'"
  using assms by (simp add: chatRequestSchema_def Let_def)

text \<open>
  Claim C4, as the code has it. When the cleaning step completes (the payload is an object
  whose \<open>messages\<close> is an array, no entry of it is \<open>null\<close>, and every content is a string,
  \<open>null\<close> or absent) and the \<open>model\<close> of the payload is not one of \<open>openai\<close>, \<open>gemini\<close>,
  \<open>deepseek\<close> (or is absent), the router answers with status 400 and error type
  \<open>VALIDATION_ERROR\<close> and makes no outbound call: neither to a route of an adapter nor to
  a provider.
\<close>

theorem unknown_model_is_validation_error:
  assumes "cleanedMessages json = Inr cleaned"
    and "get_prop json ''model'' \<notin> {JStr ''openai'', JStr ''gemini'', JStr ''deepseek''}"
  shows "(\<exists>r. fst (POST ev w (Parsed json)) = Inr r \<and>
              status r = 400 \<and>
              errorType (body r) = Some VALIDATION_ERROR \<and>
              error (body r) = Some ''Invalid request format'' \<and>
              reply (body r) = JStr []) \<and>
         snd (POST ev w (Parsed json)) = []"
proof -
  from cleanedMessages_Inr [OF assms(1)] obtain kvs ms where
    json: "json = JObj kvs" and "map_of kvs ''messages'' = Some (JArr ms)" by blast
  from assms(2) json have "obj_get kvs ''model'' \<notin> JStr ` set [''openai'', ''gemini'', ''deepseek'']"
    by (auto simp: get_prop_def)
  from z_enum_rejects [OF this] obtain i where
    "z_enum [''openai'', ''gemini'', ''deepseek''] [Key ''model''] (obj_get kvs ''model'') = Inl [i]"
    by blast
  then have "z_enum [''openai'', ''gemini'', ''deepseek''] [Key ''model'']
      (obj_get (AList.update ''messages'' (JArr cleaned) kvs) ''model'') = Inl [i]"
    by (simp add: obj_get_update_other)
  from chatRequestSchema_rejects_model [OF this] obtain is' where
    "chatRequestSchema (with_messages json cleaned) = Inl is'"
    by (auto simp: with_messages_def json)
  with assms(1) have "validated json =
      Inl (ThrownChatError (ChatErrorImpl ''Invalid request format'' 400 VALIDATION_ERROR
        (ZodDetails is') (Some ''Please check your message format and try again.'')))"
    by (simp add: validated_def)
  then show ?thesis
    by (simp add: POST_steps(2) catch_block_ChatError error_body_def)
qed

theorem unknown_model_is_validation_error_witness:
  "(\<exists>r. fst (POST all_keys offline
       (Parsed (JObj [(''model'', JStr ''claude''),
                      (''messages'', JArr [JObj [(''role'', JStr ''user''), (''content'', JStr ''Hi'')]])])))
       = Inr r \<and> status r = 400 \<and> errorType (body r) = Some VALIDATION_ERROR) \<and>
   snd (POST all_keys offline
     (Parsed (JObj [(''model'', JStr ''claude''),
                    (''messages'', JArr [JObj [(''role'', JStr ''user''), (''content'', JStr ''Hi'')]])])))
     = []"
proof -
  have c: "cleanedMessages
      (JObj [(''model'', JStr ''claude''),
             (''messages'', JArr [JObj [(''role'', JStr ''user''), (''content'', JStr ''Hi'')]])]) =
      Inr [JObj [(''role'', JStr ''user''), (''content'', JStr ''Hi'')]]"
    by (simp add: cleanedMessages_def clean_message_def get_prop_def obj_get_def trim_def
        isWhiteSpace_def)
  show ?thesis
    using unknown_model_is_validation_error [OF c, of all_keys offline]
    by (simp add: get_prop_def obj_get_def) blast
qed

text \<open>
  Claim C4 as stated covers every request with an unknown model. For one without a
  \<open>messages\<close> array the router answers with status 500 and \<open>UNKNOWN_ERROR\<close>.
\<close>

theorem unknown_model_counterexample:
  "fst (POST all_keys offline (Parsed (JObj [(''model'', JStr ''claude'')]))) =
     Inr \<lparr>status = 500,
          body = \<lparr>reply = JStr [], usage = None, error = Some ''An unexpected error occurred'',
                  errorType = Some UNKNOWN_ERROR,
                  body_suggestion =
                    Some ''Please try again later or contact support if the issue persists.'',
                  body_details =
                    ErrorDetails
                      (JsError (Text ''Cannot read properties of undefined (reading 'map')'')
                         None None)\<rparr>\<rparr>"
proof -
  have "validated (JObj [(''model'', JStr ''claude'')]) =
      Inl (TypeError ''Cannot read properties of undefined (reading 'map')'')"
    by (simp add: validated_def cleanedMessages_def get_prop_def obj_get_def)
  then show ?thesis
    by (simp add: POST_steps(2) TypeError_def catch_block_unknown unexpected_def)
qed

subsection \<open>The Gemini adapter\<close>

lemma gemini_contents_nth:
  "\<exists>cs. gemini_contents ms = JArr cs \<and> length cs = length ms \<and>
     (\<forall>i<length ms. cs ! i =
        JObj [(''role'', JStr (if role (ms ! i) = ''assistant'' then ''model'' else ''user'')),
              (''parts'', JArr [JObj [(''text'', JStr (content (ms ! i)))]])])"
  by (simp add: gemini_contents_def)

lemma gemini_reply_no_candidates:
  "candidates response = None \<or> candidates response = Some [] \<Longrightarrow> gemini_reply response = []"
  by (auto simp: gemini_reply_def first_def or_empty_def)

text \<open>
  Claim C7. For a validated request, the Gemini adapter makes one call, whose \<open>contents\<close>
  has one entry for each message, in order: its role is \<open>model\<close> when the role of the
  message is \<open>assistant\<close> and \<open>user\<close> for every other role (\<open>system\<close> too), and its parts
  are the single part holding the content of the message as text. When the call is not
  streamed and the provider answers with no candidates, the adapter answers with status
  200 and the empty string as reply, and no error.
\<close>

theorem gemini_roles_and_empty_reply:
  assumes "GEMINI_API_KEY ev = Some k" and "k \<noteq> []"
    and "validated json = Inr d"
  shows
    "\<exists>cs. snd (POST_gemini ev w (Parsed json)) =
            [(if stream d = Some True then GenerateContentStream else GenerateContent)
               (JObj [(''model'', JStr ''gemini-2.0-flash-001''), (''contents'', JArr cs)])] \<and>
          length cs = length (messages d) \<and>
          (\<forall>i<length (messages d).
             cs ! i =
               JObj [(''role'', JStr (if role (messages d ! i) = ''assistant'' then ''model'' else ''user'')),
                     (''parts'', JArr [JObj [(''text'', JStr (content (messages d ! i)))]])]) \<and>
          (\<forall>response. stream d \<noteq> Some True \<and>
             generateContent w (JObj [(''model'', JStr ''gemini-2.0-flash-001''), (''contents'', JArr cs)])
               = Inr response \<and>
             (candidates response = None \<or> candidates response = Some []) \<longrightarrow>
             fst (POST_gemini ev w (Parsed json)) = Inr (reply_response (JStr []) None) \<and>
             status (reply_response (JStr []) None) = 200 \<and>
             reply (body (reply_response (JStr []) None)) = JStr [] \<and>
             error (body (reply_response (JStr []) None)) = None)"
proof -
  from gemini_contents_nth [of "messages d"] obtain cs where
    cs: "gemini_contents (messages d) = JArr cs" and len: "length cs = length (messages d)" and
    nth: "\<forall>i<length (messages d). cs ! i =
        JObj [(''role'', JStr (if role (messages d ! i) = ''assistant'' then ''model'' else ''user'')),
              (''parts'', JArr [JObj [(''text'', JStr (content (messages d ! i)))]])]"
    by blast
  have req: "gemini_request d =
      JObj [(''model'', JStr ''gemini-2.0-flash-001''), (''contents'', JArr cs)]"
    by (simp add: gemini_request_def cs)
  have calls: "snd (POST_gemini ev w (Parsed json)) =
      [(if stream d = Some True then GenerateContentStream else GenerateContent)
         (JObj [(''model'', JStr ''gemini-2.0-flash-001''), (''contents'', JArr cs)])]"
    using assms by (simp add: POST_gemini_steps(4) not_set_iff req)
  have empty: "fst (POST_gemini ev w (Parsed json)) = Inr (reply_response (JStr []) None)"
    if "stream d \<noteq> Some True"
      and "generateContent w (JObj [(''model'', JStr ''gemini-2.0-flash-001''), (''contents'', JArr cs)])
             = Inr response"
      and "candidates response = None \<or> candidates response = Some []" for response
    using assms that gemini_reply_no_candidates [OF that(3)]
    by (simp add: POST_gemini_steps(4) not_set_iff gemini_call_def try_catch_def req)
  from calls len nth empty show ?thesis
    by (intro exI [of _ cs]) (auto simp: reply_response_fields)
qed

theorem gemini_roles_and_empty_reply_witness:
  "POST_gemini all_keys
     (mock (Inl refused) (Inr (GenerateContentResponse None)) (Inl refused) (Inl refused))
     (Parsed (JObj [(''model'', JStr ''gemini''),
                    (''messages'',
                       JArr [JObj [(''role'', JStr ''assistant''), (''content'', JStr ''prior'')],
                             JObj [(''role'', JStr ''system''), (''content'', JStr ''brief'')]])])) =
     (Inr (reply_response (JStr []) None),
      [GenerateContent
         (JObj [(''model'', JStr ''gemini-2.0-flash-001''),
                (''contents'',
                   JArr [JObj [(''role'', JStr ''model''), (''parts'', JArr [JObj [(''text'', JStr ''prior'')]])],
                         JObj [(''role'', JStr ''user''), (''parts'', JArr [JObj [(''text'', JStr ''brief'')]])]])])]) \<and>
   status (reply_response (JStr []) None) = 200"
proof -
  have k: "GEMINI_API_KEY all_keys = Some ''sk-gemini''" and n: "''sk-gemini'' \<noteq> []"
    by (simp_all add: all_keys_def)
  have v: "validated (JObj [(''model'', JStr ''gemini''),
                    (''messages'',
                       JArr [JObj [(''role'', JStr ''assistant''), (''content'', JStr ''prior'')],
                             JObj [(''role'', JStr ''system''), (''content'', JStr ''brief'')]])]) =
     Inr \<lparr>model = ''gemini'',
          messages = [\<lparr>role = ''assistant'', content = ''prior'', name = None, function_call = None\<rparr>,
                      \<lparr>role = ''system'', content = ''brief'', name = None, function_call = None\<rparr>],
          stream = None, parameters = None\<rparr>"
    by (simp add: evaluation)
  from gemini_roles_and_empty_reply [OF k n v,
      of "mock (Inl refused) (Inr (GenerateContentResponse None)) (Inl refused) (Inl refused)"]
  obtain cs where
    calls: "snd (POST_gemini all_keys
        (mock (Inl refused) (Inr (GenerateContentResponse None)) (Inl refused) (Inl refused))
        (Parsed (JObj [(''model'', JStr ''gemini''),
                    (''messages'',
                       JArr [JObj [(''role'', JStr ''assistant''), (''content'', JStr ''prior'')],
                             JObj [(''role'', JStr ''system''), (''content'', JStr ''brief'')]])]))) =
      [GenerateContent (JObj [(''model'', JStr ''gemini-2.0-flash-001''), (''contents'', JArr cs)])]" and
    len: "length cs = 2" and
    c0: "cs ! 0 = JObj [(''role'', JStr ''model''), (''parts'', JArr [JObj [(''text'', JStr ''prior'')]])]" and
    c1: "cs ! 1 = JObj [(''role'', JStr ''user''), (''parts'', JArr [JObj [(''text'', JStr ''brief'')]])]" and
    r: "fst (POST_gemini all_keys
        (mock (Inl refused) (Inr (GenerateContentResponse None)) (Inl refused) (Inl refused))
        (Parsed (JObj [(''model'', JStr ''gemini''),
                    (''messages'',
                       JArr [JObj [(''role'', JStr ''assistant''), (''content'', JStr ''prior'')],
                             JObj [(''role'', JStr ''system''), (''content'', JStr ''brief'')]])]))) =
      Inr (reply_response (JStr []) None)"
    by (auto simp: mock_def)
  from len c0 c1 have "cs = [JObj [(''role'', JStr ''model''), (''parts'', JArr [JObj [(''text'', JStr ''prior'')]])],
                             JObj [(''role'', JStr ''user''), (''parts'', JArr [JObj [(''text'', JStr ''brief'')]])]]"
    by (cases cs; cases "tl cs") auto
  with calls r show ?thesis
    by (simp add: prod_eq_iff reply_response_fields)
qed

subsection \<open>The parameters of the request\<close>

lemma spread_lookup:
  "\<exists>kvs. spread defaults ps = JObj kvs \<and>
     (\<forall>key. map_of kvs key =
        (case map_of (case ps of None \<Rightarrow> [] | Some xs \<Rightarrow> xs) key of
           Some v \<Rightarrow> Some v
         | None \<Rightarrow> map_of defaults key))"
  by (simp add: spread_def merge_conv' map_add_def)

text \<open>
  Claim C9. The \<open>parameters\<close> of the payload pass validation unchanged, whatever their
  keys and values. The request body the DeepSeek adapter posts, and the argument the
  OpenAI adapter gives to \<open>create\<close>, hold at every key the value \<open>parameters\<close> has there
  and, at a key \<open>parameters\<close> does not have, the default: for DeepSeek \<open>model\<close>
  \<open>deepseek-chat\<close>, the messages, \<open>temperature\<close> 0.7 and \<open>max_tokens\<close> 1000; for OpenAI
  \<open>model\<close> \<open>gpt-3.5-turbo\<close>, the messages, the same two and \<open>top_p\<close> 1,
  \<open>presence_penalty\<close> 0, \<open>frequency_penalty\<close> 0 and the \<open>stream\<close> flag of the request. So
  any key can be overridden, \<open>model\<close>, \<open>messages\<close> and \<open>stream\<close> included.
\<close>

theorem parameters_override_defaults:
  assumes "validated json = Inr d"
  shows
    "parameters d = (case get_prop json ''parameters'' of JObj kvs \<Rightarrow> Some kvs | _ \<Rightarrow> None) \<and>
     (\<exists>requestBody.
        (\<forall>ev w k. DEEPSEEK_API_KEY ev = Some k \<and> k \<noteq> [] \<longrightarrow>
           snd (POST_deepseek ev w (Parsed json)) = [AxiosPost deepseek_endpoint (JObj requestBody)]) \<and>
        (\<forall>key.
           map_of requestBody key =
             (case map_of (case parameters d of None \<Rightarrow> [] | Some kvs \<Rightarrow> kvs) key of
                Some v \<Rightarrow> Some v
              | None \<Rightarrow>
                  map_of
                    [(''model'', JStr ''deepseek-chat''),
                     (''messages'',
                        JArr (map (\<lambda>msg. JObj [(''role'', JStr (role msg)), (''content'', JStr (content msg))])
                               (messages d))),
                     (''temperature'', JNum 0.7),
                     (''max_tokens'', JNum 1000)] key))) \<and>
     (\<exists>requestBody.
        (\<forall>ev w k. OPENAI_API_KEY ev = Some k \<and> k \<noteq> [] \<longrightarrow>
           snd (POST_openai ev w (Parsed json)) = [OpenAICreate (JObj requestBody)]) \<and>
        (\<forall>key.
           map_of requestBody key =
             (case map_of (case parameters d of None \<Rightarrow> [] | Some kvs \<Rightarrow> kvs) key of
                Some v \<Rightarrow> Some v
              | None \<Rightarrow>
                  map_of
                    [(''model'', JStr ''gpt-3.5-turbo''),
                     (''messages'', JArr (map openai_message (messages d))),
                     (''temperature'', JNum 0.7),
                     (''max_tokens'', JNum 1000),
                     (''top_p'', JNum 1),
                     (''presence_penalty'', JNum 0),
                     (''frequency_penalty'', JNum 0),
                     (''stream'', JBool (case stream d of None \<Rightarrow> False | Some b \<Rightarrow> b))] key)))"
proof -
  from validated_request [OF assms] have
    p: "parameters d = (case get_prop json ''parameters'' of JObj kvs \<Rightarrow> Some kvs | _ \<Rightarrow> None)"
    by (auto simp: get_prop_def)
  obtain ds where ds: "deepseek_requestBody d = JObj ds" and
    ds_lookup: "\<forall>key. map_of ds key =
        (case map_of (case parameters d of None \<Rightarrow> [] | Some xs \<Rightarrow> xs) key of
           Some v \<Rightarrow> Some v
         | None \<Rightarrow>
             map_of
               [(''model'', JStr ''deepseek-chat''),
                (''messages'',
                   JArr (map (\<lambda>msg. JObj [(''role'', JStr (role msg)), (''content'', JStr (content msg))])
                          (messages d))),
                (''temperature'', JNum 0.7),
                (''max_tokens'', JNum 1000)] key)"
    unfolding deepseek_requestBody_def using spread_lookup by blast
  obtain os where os: "openai_requestBody d = JObj os" and
    os_lookup: "\<forall>key. map_of os key =
        (case map_of (case parameters d of None \<Rightarrow> [] | Some xs \<Rightarrow> xs) key of
           Some v \<Rightarrow> Some v
         | None \<Rightarrow>
             map_of
               [(''model'', JStr ''gpt-3.5-turbo''),
                (''messages'', JArr (map openai_message (messages d))),
                (''temperature'', JNum 0.7),
                (''max_tokens'', JNum 1000),
                (''top_p'', JNum 1),
                (''presence_penalty'', JNum 0),
                (''frequency_penalty'', JNum 0),
                (''stream'', JBool (case stream d of None \<Rightarrow> False | Some b \<Rightarrow> b))] key)"
    unfolding openai_requestBody_def using spread_lookup by blast
  have dcall: "snd (POST_deepseek ev w (Parsed json)) = [AxiosPost deepseek_endpoint (JObj ds)]"
    if "DEEPSEEK_API_KEY ev = Some k \<and> k \<noteq> []" for ev w k
    using that assms by (simp add: POST_deepseek_steps(4) not_set_iff ds)
  have ocall: "snd (POST_openai ev w (Parsed json)) = [OpenAICreate (JObj os)]"
    if "OPENAI_API_KEY ev = Some k \<and> k \<noteq> []" for ev w k
    using that assms by (simp add: POST_openai_steps(4) not_set_iff os)
  from dcall ds_lookup have D: "\<exists>requestBody.
        (\<forall>ev w k. DEEPSEEK_API_KEY ev = Some k \<and> k \<noteq> [] \<longrightarrow>
           snd (POST_deepseek ev w (Parsed json)) = [AxiosPost deepseek_endpoint (JObj requestBody)]) \<and>
        (\<forall>key.
           map_of requestBody key =
             (case map_of (case parameters d of None \<Rightarrow> [] | Some kvs \<Rightarrow> kvs) key of
                Some v \<Rightarrow> Some v
              | None \<Rightarrow>
                  map_of
                    [(''model'', JStr ''deepseek-chat''),
                     (''messages'',
                        JArr (map (\<lambda>msg. JObj [(''role'', JStr (role msg)), (''content'', JStr (content msg))])
                               (messages d))),
                     (''temperature'', JNum 0.7),
                     (''max_tokens'', JNum 1000)] key))"
    by (intro exI [of _ ds]) blast
  from ocall os_lookup have O: "\<exists>requestBody.
        (\<forall>ev w k. OPENAI_API_KEY ev = Some k \<and> k \<noteq> [] \<longrightarrow>
           snd (POST_openai ev w (Parsed json)) = [OpenAICreate (JObj requestBody)]) \<and>
        (\<forall>key.
           map_of requestBody key =
             (case map_of (case parameters d of None \<Rightarrow> [] | Some kvs \<Rightarrow> kvs) key of
                Some v \<Rightarrow> Some v
              | None \<Rightarrow>
                  map_of
                    [(''model'', JStr ''gpt-3.5-turbo''),
                     (''messages'', JArr (map openai_message (messages d))),
                     (''temperature'', JNum 0.7),
                     (''max_tokens'', JNum 1000),
                     (''top_p'', JNum 1),
                     (''presence_penalty'', JNum 0),
                     (''frequency_penalty'', JNum 0),
                     (''stream'', JBool (case stream d of None \<Rightarrow> False | Some b \<Rightarrow> b))] key))"
    by (intro exI [of _ os]) blast
  from p D O show ?thesis by blast
qed

theorem parameters_override_defaults_witness:
  "\<exists>requestBody.
     snd (POST_deepseek all_keys offline
       (Parsed (JObj [(''model'', JStr ''deepseek''),
                      (''messages'', JArr [JObj [(''role'', JStr ''user''), (''content'', JStr '' Hi '')]]),
                      (''parameters'',
                         JObj [(''model'', JStr ''deepseek-reasoner''), (''stream'', JBool True),
                               (''temperature'', JNum 0)])]))) =
       [AxiosPost deepseek_endpoint (JObj requestBody)] \<and>
     map_of requestBody ''model'' = Some (JStr ''deepseek-reasoner'') \<and>
     map_of requestBody ''stream'' = Some (JBool True) \<and>
     map_of requestBody ''temperature'' = Some (JNum 0) \<and>
     map_of requestBody ''max_tokens'' = Some (JNum 1000) \<and>
     map_of requestBody ''messages'' =
       Some (JArr [JObj [(''role'', JStr ''user''), (''content'', JStr ''Hi'')]])"
proof -
  have v: "validated
      (JObj [(''model'', JStr ''deepseek''),
             (''messages'', JArr [JObj [(''role'', JStr ''user''), (''content'', JStr '' Hi '')]]),
             (''parameters'',
                JObj [(''model'', JStr ''deepseek-reasoner''), (''stream'', JBool True),
                      (''temperature'', JNum 0)])]) =
     Inr \<lparr>model = ''deepseek'',
          messages = [\<lparr>role = ''user'', content = ''Hi'', name = None, function_call = None\<rparr>],
          stream = None,
          parameters = Some [(''model'', JStr ''deepseek-reasoner''), (''stream'', JBool True),
                             (''temperature'', JNum 0)]\<rparr>"
    by (simp add: evaluation)
  let ?d = "\<lparr>model = ''deepseek'',
          messages = [\<lparr>role = ''user'', content = ''Hi'', name = None, function_call = None\<rparr>],
          stream = None,
          parameters = Some [(''model'', JStr ''deepseek-reasoner''), (''stream'', JBool True),
                             (''temperature'', JNum 0)]\<rparr>"
  from parameters_override_defaults [OF v] obtain requestBody where
    calls: "\<forall>ev w k. DEEPSEEK_API_KEY ev = Some k \<and> k \<noteq> [] \<longrightarrow>
       snd (POST_deepseek ev w
         (Parsed (JObj [(''model'', JStr ''deepseek''),
                      (''messages'', JArr [JObj [(''role'', JStr ''user''), (''content'', JStr '' Hi '')]]),
                      (''parameters'',
                         JObj [(''model'', JStr ''deepseek-reasoner''), (''stream'', JBool True),
                               (''temperature'', JNum 0)])]))) =
       [AxiosPost deepseek_endpoint (JObj requestBody)]" and
    lookup: "\<forall>key. map_of requestBody key =
       (case map_of (case parameters ?d of None \<Rightarrow> [] | Some kvs \<Rightarrow> kvs) key of
          Some v \<Rightarrow> Some v
        | None \<Rightarrow>
            map_of
              [(''model'', JStr ''deepseek-chat''),
               (''messages'',
                  JArr (map (\<lambda>msg. JObj [(''role'', JStr (role msg)), (''content'', JStr (content msg))])
                         (messages ?d))),
               (''temperature'', JNum 0.7),
               (''max_tokens'', JNum 1000)] key)"
    by blast
  have "DEEPSEEK_API_KEY all_keys = Some ''sk-deepseek'' \<and> ''sk-deepseek'' \<noteq> []"
    by (simp add: all_keys_def)
  with calls have "snd (POST_deepseek all_keys offline
       (Parsed (JObj [(''model'', JStr ''deepseek''),
                      (''messages'', JArr [JObj [(''role'', JStr ''user''), (''content'', JStr '' Hi '')]]),
                      (''parameters'',
                         JObj [(''model'', JStr ''deepseek-reasoner''), (''stream'', JBool True),
                               (''temperature'', JNum 0)])]))) =
       [AxiosPost deepseek_endpoint (JObj requestBody)]"
    by blast
  then show ?thesis
    by (intro exI [of _ requestBody]) (simp add: lookup)
qed

subsection \<open>Streams\<close>

lemma openai_accumulate_concat:
  "openai_accumulate fullContent cs = fullContent @ concat (map chunk_content cs)"
  by (induction cs arbitrary: fullContent) simp_all

lemma gemini_accumulate_concat:
  "gemini_accumulate fullContent cs =
     fullContent @ concat (map (\<lambda>chunk. or_empty (chunk_text chunk)) cs)"
  by (induction cs arbitrary: fullContent) (auto simp: or_empty_def split: option.splits)

lemma catch_block_failure:
  assumes "catch_block e dm = Inr r"
  shows "reply (body r) = JStr []" and "error (body r) \<noteq> None" and "errorType (body r) \<noteq> None"
    and "usage (body r) = None"
  using catch_block_Inr [OF assms] by (auto simp: error_body_fields)

lemma thrown_is_failure:
  "\<exists>r. try_catch (try_catch (Inl e) (\<lambda>e. catch_block e dm)) (\<lambda>e. catch_block e unexpected) = Inr r \<and>
       reply (body r) = JStr [] \<and> error (body r) \<noteq> None \<and> errorType (body r) \<noteq> None"
  using caught_twice [of "Inl e" dm] catch_block_failure by blast

lemma openai_call_stream:
  assumes "stream d = Some True"
    and "openai_create w (openai_requestBody d) = Inr (Streamed (ChunkStream cs end))"
  shows "openai_call w d =
           try_catch
             (case end of
                None \<Rightarrow> Inr (reply_response (JStr (concat (map chunk_content cs))) None)
              | Some e \<Rightarrow> Inl e)
             (\<lambda>e. catch_block e ''Failed to get response from OpenAI'')"
  using assms
  by (simp add: openai_call_def openai_read_def openai_accumulate_concat split: option.splits)

lemma gemini_call_stream:
  assumes "stream d = Some True"
    and "generateContentStream w (gemini_request d) = Inr (ChunkStream cs end)"
  shows "gemini_call w d =
           try_catch
             (case end of
                None \<Rightarrow>
                  Inr (reply_response
                         (JStr (concat (map (\<lambda>chunk. or_empty (chunk_text chunk)) cs))) None)
              | Some e \<Rightarrow> Inl e)
             (\<lambda>e. catch_block e ''Failed to get response from Gemini'')"
  using assms by (simp add: gemini_call_def gemini_accumulate_concat split: option.splits)

text \<open>
  Claim C8, as far as it holds. On the streaming path of the adapters of OpenAI and
  Gemini (the validated request has \<open>stream\<close> true, which is what the handlers branch on)
  and for a call that gives a stream, the reply is the concatenation, in arrival order,
  of the texts of all the chunks the stream yields, a chunk without text counting as the
  empty string; the one response is built when the stream has ended. A stream that
  fails after some chunks gives a response of a \<open>catch\<close> block, with the empty string as
  reply and an error: no partial text leaves the adapter. Chunks \<open>Hel\<close>, \<open>lo\<close> give the
  reply \<open>Hello\<close>.
\<close>

theorem streamed_chunks_are_accumulated:
  assumes "validated json = Inr d" and "stream d = Some True"
  shows
    "(\<forall>k cs. OPENAI_API_KEY ev = Some k \<and> k \<noteq> [] \<and>
        openai_create w (openai_requestBody d) = Inr (Streamed (ChunkStream cs None)) \<longrightarrow>
        POST_openai ev w (Parsed json) =
          (Inr (reply_response (JStr (concat (map chunk_content cs))) None),
           [OpenAICreate (openai_requestBody d)])) \<and>
     (\<forall>k cs. GEMINI_API_KEY ev = Some k \<and> k \<noteq> [] \<and>
        generateContentStream w (gemini_request d) = Inr (ChunkStream cs None) \<longrightarrow>
        POST_gemini ev w (Parsed json) =
          (Inr (reply_response (JStr (concat (map (\<lambda>chunk. or_empty (chunk_text chunk)) cs))) None),
           [GenerateContentStream (gemini_request d)])) \<and>
     (\<forall>k cs e. OPENAI_API_KEY ev = Some k \<and> k \<noteq> [] \<and>
        openai_create w (openai_requestBody d) = Inr (Streamed (ChunkStream cs (Some e))) \<longrightarrow>
        (\<exists>r. fst (POST_openai ev w (Parsed json)) = Inr r \<and> reply (body r) = JStr [] \<and>
              error (body r) \<noteq> None \<and> errorType (body r) \<noteq> None)) \<and>
     (\<forall>k cs e. GEMINI_API_KEY ev = Some k \<and> k \<noteq> [] \<and>
        generateContentStream w (gemini_request d) = Inr (ChunkStream cs (Some e)) \<longrightarrow>
        (\<exists>r. fst (POST_gemini ev w (Parsed json)) = Inr r \<and> reply (body r) = JStr [] \<and>
              error (body r) \<noteq> None \<and> errorType (body r) \<noteq> None))"
proof -
  have 1: "POST_openai ev w (Parsed json) =
          (Inr (reply_response (JStr (concat (map chunk_content cs))) None),
           [OpenAICreate (openai_requestBody d)])"
    if "OPENAI_API_KEY ev = Some k \<and> k \<noteq> [] \<and>
        openai_create w (openai_requestBody d) = Inr (Streamed (ChunkStream cs None))" for k cs
    using that assms openai_call_stream [OF assms(2), of w cs None]
    by (simp add: POST_openai_steps(4) not_set_iff try_catch_def)
  have 2: "POST_gemini ev w (Parsed json) =
          (Inr (reply_response (JStr (concat (map (\<lambda>chunk. or_empty (chunk_text chunk)) cs))) None),
           [GenerateContentStream (gemini_request d)])"
    if "GEMINI_API_KEY ev = Some k \<and> k \<noteq> [] \<and>
        generateContentStream w (gemini_request d) = Inr (ChunkStream cs None)" for k cs
    using that assms gemini_call_stream [OF assms(2), of w cs None]
    by (simp add: POST_gemini_steps(4) not_set_iff try_catch_def)
  have 3: "\<exists>r. fst (POST_openai ev w (Parsed json)) = Inr r \<and> reply (body r) = JStr [] \<and>
              error (body r) \<noteq> None \<and> errorType (body r) \<noteq> None"
    if "OPENAI_API_KEY ev = Some k \<and> k \<noteq> [] \<and>
        openai_create w (openai_requestBody d) = Inr (Streamed (ChunkStream cs (Some e)))"
    for k cs e
    using that assms openai_call_stream [OF assms(2), of w cs "Some e"]
      thrown_is_failure [of e "''Failed to get response from OpenAI''"]
    by (simp add: POST_openai_steps(4) not_set_iff)
  have 4: "\<exists>r. fst (POST_gemini ev w (Parsed json)) = Inr r \<and> reply (body r) = JStr [] \<and>
              error (body r) \<noteq> None \<and> errorType (body r) \<noteq> None"
    if "GEMINI_API_KEY ev = Some k \<and> k \<noteq> [] \<and>
        generateContentStream w (gemini_request d) = Inr (ChunkStream cs (Some e))"
    for k cs e
    using that assms gemini_call_stream [OF assms(2), of w cs "Some e"]
      thrown_is_failure [of e "''Failed to get response from Gemini''"]
    by (simp add: POST_gemini_steps(4) not_set_iff)
  from 1 2 3 4 show ?thesis by blast
qed

theorem streamed_chunks_are_accumulated_witness:
  "fst (POST_openai all_keys
      (mock (Inr (Streamed (ChunkStream
               [ChatCompletionChunk [ChunkChoice (Some (Delta (Some ''Hel'')))],
                ChatCompletionChunk [ChunkChoice (Some (Delta (Some ''lo'')))]] None)))
            (Inl refused) (Inl refused) (Inl refused))
      (Parsed (JObj [(''model'', JStr ''openai''),
                     (''messages'', JArr [JObj [(''role'', JStr ''user''), (''content'', JStr ''Hi'')]]),
                     (''stream'', JBool True)]))) =
     Inr \<lparr>status = 200,
          body = \<lparr>reply = JStr ''Hello'', usage = None, error = None, errorType = None,
                  body_suggestion = None, body_details = NoDetails\<rparr>\<rparr> \<and>
   fst (POST_gemini all_keys
      (mock (Inl refused) (Inl refused)
            (Inr (ChunkStream [GeminiChunk (Some ''Hel''), GeminiChunk (Some ''lo'')] None))
            (Inl refused))
      (Parsed (JObj [(''model'', JStr ''gemini''),
                     (''messages'', JArr [JObj [(''role'', JStr ''user''), (''content'', JStr ''Hi'')]]),
                     (''stream'', JBool True)]))) =
     Inr \<lparr>status = 200,
          body = \<lparr>reply = JStr ''Hello'', usage = None, error = None, errorType = None,
                  body_suggestion = None, body_details = NoDetails\<rparr>\<rparr>"
proof -
  have o: "validated (JObj [(''model'', JStr ''openai''),
                    (''messages'', JArr [JObj [(''role'', JStr ''user''), (''content'', JStr ''Hi'')]]),
                    (''stream'', JBool True)]) =
     Inr \<lparr>model = ''openai'',
          messages = [\<lparr>role = ''user'', content = ''Hi'', name = None, function_call = None\<rparr>],
          stream = Some True, parameters = None\<rparr>"
    by (simp add: evaluation)
  have g: "validated (JObj [(''model'', JStr ''gemini''),
                    (''messages'', JArr [JObj [(''role'', JStr ''user''), (''content'', JStr ''Hi'')]]),
                    (''stream'', JBool True)]) =
     Inr \<lparr>model = ''gemini'',
          messages = [\<lparr>role = ''user'', content = ''Hi'', name = None, function_call = None\<rparr>],
          stream = Some True, parameters = None\<rparr>"
    by (simp add: evaluation)
  show ?thesis
    using streamed_chunks_are_accumulated [OF o, of all_keys
        "mock (Inr (Streamed (ChunkStream
                 [ChatCompletionChunk [ChunkChoice (Some (Delta (Some ''Hel'')))],
                  ChatCompletionChunk [ChunkChoice (Some (Delta (Some ''lo'')))]] None)))
              (Inl refused) (Inl refused) (Inl refused)"]
      streamed_chunks_are_accumulated [OF g, of all_keys
        "mock (Inl refused) (Inl refused)
              (Inr (ChunkStream [GeminiChunk (Some ''Hel''), GeminiChunk (Some ''lo'')] None))
              (Inl refused)"]
    by (simp add: all_keys_def mock_def chunk_content_def first_def or_empty_def
        reply_response_def)
qed

text \<open>
  Claim C8 fails for a streaming call the handler does not take for one. The request below
  asks for a stream in its \<open>parameters\<close> and has no \<open>stream\<close> of its own: the argument of
  \<open>create\<close> has \<open>stream\<close> true, the client of OpenAI answers with a stream, here of the
  chunks \<open>Hel\<close>, \<open>lo\<close>, and the handler, which branches on the \<open>stream\<close> of the request,
  reads it as a completion: \<open>response.choices[0]\<close> throws and the adapter answers with
  status 500, \<open>UNKNOWN_ERROR\<close> and the empty string as reply.
\<close>

theorem stream_in_parameters_counterexample:
  "POST_openai all_keys
      (mock (Inr (Streamed (ChunkStream
               [ChatCompletionChunk [ChunkChoice (Some (Delta (Some ''Hel'')))],
                ChatCompletionChunk [ChunkChoice (Some (Delta (Some ''lo'')))]] None)))
            (Inl refused) (Inl refused) (Inl refused))
      (Parsed (JObj [(''model'', JStr ''openai''),
                     (''messages'', JArr [JObj [(''role'', JStr ''user''), (''content'', JStr ''Hi'')]]),
                     (''parameters'', JObj [(''stream'', JBool True)])])) =
     (Inr \<lparr>status = 500,
           body = \<lparr>reply = JStr [], usage = None,
                   error = Some ''Failed to get response from OpenAI'',
                   errorType = Some UNKNOWN_ERROR,
                   body_suggestion =
                     Some ''Please try again later or contact support if the issue persists.'',
                   body_details =
                     ErrorDetails
                       (JsError (Text ''Cannot read properties of undefined (reading '0')'')
                          None None)\<rparr>\<rparr>,
      [OpenAICreate
         (JObj [(''model'', JStr ''gpt-3.5-turbo''),
                (''messages'',
                   JArr [JObj [(''role'', JStr ''user''), (''content'', JStr ''Hi''),
                               (''name'', JUndefined), (''function_call'', JUndefined)]]),
                (''temperature'', JNum 0.7),
                (''max_tokens'', JNum 1000),
                (''top_p'', JNum 1),
                (''presence_penalty'', JNum 0),
                (''frequency_penalty'', JNum 0),
                (''stream'', JBool True)])])"
proof -
  have v: "validated (JObj [(''model'', JStr ''openai''),
                    (''messages'', JArr [JObj [(''role'', JStr ''user''), (''content'', JStr ''Hi'')]]),
                    (''parameters'', JObj [(''stream'', JBool True)])]) =
     Inr \<lparr>model = ''openai'',
          messages = [\<lparr>role = ''user'', content = ''Hi'', name = None, function_call = None\<rparr>],
          stream = None, parameters = Some [(''stream'', JBool True)]\<rparr>"
    by (simp add: evaluation)
  have k: "\<not> not_set (OPENAI_API_KEY all_keys)" by (simp add: all_keys_def not_set_def)
  have b: "openai_requestBody
      \<lparr>model = ''openai'',
        messages = [\<lparr>role = ''user'', content = ''Hi'', name = None, function_call = None\<rparr>],
        stream = None, parameters = Some [(''stream'', JBool True)]\<rparr> =
      JObj [(''model'', JStr ''gpt-3.5-turbo''),
                (''messages'',
                   JArr [JObj [(''role'', JStr ''user''), (''content'', JStr ''Hi''),
                               (''name'', JUndefined), (''function_call'', JUndefined)]]),
                (''temperature'', JNum 0.7),
                (''max_tokens'', JNum 1000),
                (''top_p'', JNum 1),
                (''presence_penalty'', JNum 0),
                (''frequency_penalty'', JNum 0),
                (''stream'', JBool True)]"
    by (simp add: openai_requestBody_def spread_def AList.merge_def openai_message_def
        js_option_def AList.update.simps)
  show ?thesis
    unfolding POST_openai_steps(4) [OF k v] b
    by (simp add: openai_call_def mock_def openai_read_def try_catch_def TypeError_def
        catch_block_unknown)
qed

subsection \<open>What a handler answers\<close>











subsection \<open>The router\<close>







subsection \<open>Reply or failure\<close>













end
